theory Spec2Isabelle
  imports Main "HOL-Library.Sublist"
begin

section \<open>Python values and the operations the build scripts use\<close>

text \<open>
  The build scripts read JSON documents with \<^verbatim>\<open>json.load\<close> and pass the resulting
  dictionaries, lists and scalars around untyped. A document is a value of type \<open>json\<close>;
  a dictionary is an association list (looked up with \<open>map_of\<close>; a dictionary read from
  JSON has distinct keys). A Python \<^verbatim>\<open>str\<close> is modelled by its UTF-8 encoding, a
  \<open>string\<close> of bytes: the scripts only concatenate, compare and search strings, which is the
  same on code points and on their encoding. JSON numbers with a fraction or an exponent
  are not part of the type.

  Every exception the scripts can raise on such values is a \<open>py_error\<close>, and a function
  that can raise returns \<open>py_error + 'a\<close> (\<open>Inl\<close> the exception).
\<close>

datatype json =
    JNull
  | JBool bool
  | JInt int
  | JStr string
  | JArr "json list"
  | JObj "(string \<times> json) list"

datatype py_error =
    KeyError string
  | TypeError
  | AttributeError
  | JSONDecodeError

text \<open>Names for the kinds of text the scripts produce.\<close>

type_synonym html = string
type_synonym css = string
type_synonym colour = string

text \<open>Sequencing: the first exception ends the computation.\<close>

definition bnd :: "py_error + 'a \<Rightarrow> ('a \<Rightarrow> py_error + 'b) \<Rightarrow> py_error + 'b" where
  "bnd m f = (case m of Inl e \<Rightarrow> Inl e | Inr x \<Rightarrow> f x)"

text \<open>A \<^verbatim>\<open>for\<close> loop (or generator) that builds one item per element, in order.\<close>

fun mapM :: "('a \<Rightarrow> py_error + 'b) \<Rightarrow> 'a list \<Rightarrow> py_error + 'b list" where
  "mapM f [] = Inr []"
| "mapM f (x # xs) = bnd (f x) (\<lambda>y. bnd (mapM f xs) (\<lambda>ys. Inr (y # ys)))"

text \<open>Truth value testing (\<^verbatim>\<open>if x:\<close>).\<close>

fun truthy :: "json \<Rightarrow> bool" where
  "truthy JNull = False"
| "truthy (JBool b) = b"
| "truthy (JInt n) = (n \<noteq> 0)"
| "truthy (JStr s) = (s \<noteq> [])"
| "truthy (JArr xs) = (xs \<noteq> [])"
| "truthy (JObj kvs) = (kvs \<noteq> [])"

text \<open>\<^verbatim>\<open>d[k]\<close> with a string key: KeyError on a dictionary without the key, TypeError on
  every other value.\<close>

fun subscript :: "json \<Rightarrow> string \<Rightarrow> py_error + json" where
  "subscript (JObj kvs) k = (case map_of kvs k of Some v \<Rightarrow> Inr v | None \<Rightarrow> Inl (KeyError k))"
| "subscript v k = Inl TypeError"

text \<open>\<^verbatim>\<open>d.get(k, default)\<close>: only dictionaries have the method.\<close>

fun py_get :: "json \<Rightarrow> string \<Rightarrow> json \<Rightarrow> py_error + json" where
  "py_get (JObj kvs) k d = Inr (case map_of kvs k of Some v \<Rightarrow> v | None \<Rightarrow> d)"
| "py_get v k d = Inl AttributeError"

text \<open>\<^verbatim>\<open>k in v\<close> for a string \<open>k\<close>: a key of a dictionary, an element of a list, a
  substring of a string; TypeError on the values that are not containers.\<close>

fun py_in :: "string \<Rightarrow> json \<Rightarrow> py_error + bool" where
  "py_in k (JObj kvs) = Inr (map_of kvs k \<noteq> None)"
| "py_in k (JArr xs) = Inr (JStr k \<in> set xs)"
| "py_in k (JStr s) = Inr (sublist k s)"
| "py_in k v = Inl TypeError"

text \<open>The characters of a string: a byte that is not a UTF-8 continuation byte starts a
  new character.\<close>

definition is_continuation :: "char \<Rightarrow> bool" where
  "is_continuation c = (128 \<le> (of_char c :: nat) \<and> (of_char c :: nat) < 192)"

function utf8_chars :: "string \<Rightarrow> string list" where
  "utf8_chars [] = []"
| "utf8_chars (c # cs) = (c # takeWhile is_continuation cs) # utf8_chars (dropWhile is_continuation cs)"
  by pat_completeness auto
termination
  by (relation "measure length") (auto simp: less_Suc_eq_le length_dropWhile_le)

text \<open>Iteration: the elements of a list, the keys of a dictionary, the characters of a
  string; TypeError on the values that are not iterable.\<close>

fun py_iter :: "json \<Rightarrow> py_error + json list" where
  "py_iter (JArr xs) = Inr xs"
| "py_iter (JObj kvs) = Inr (map (\<lambda>kv. JStr (fst kv)) kvs)"
| "py_iter (JStr s) = Inr (map JStr (utf8_chars s))"
| "py_iter v = Inl TypeError"

text \<open>\<^verbatim>\<open>sep.join(items)\<close> on strings.\<close>

fun str_join :: "string \<Rightarrow> string list \<Rightarrow> string" where
  "str_join sep [] = []"
| "str_join sep [x] = x"
| "str_join sep (x # y # ys) = x @ sep @ str_join sep (y # ys)"

fun as_str :: "json \<Rightarrow> py_error + string" where
  "as_str (JStr s) = Inr s"
| "as_str v = Inl TypeError"

text \<open>\<^verbatim>\<open>sep.join(v)\<close> on a value of the document: it must be iterable and every item a
  string.\<close>

definition py_join :: "string \<Rightarrow> json \<Rightarrow> py_error + string" where
  "py_join sep v = bnd (py_iter v) (\<lambda>xs. bnd (mapM as_str xs) (\<lambda>ss. Inr (str_join sep ss)))"

text \<open>Decimal digits of an integer (\<^verbatim>\<open>str(n)\<close>).\<close>

fun dec_nat :: "nat \<Rightarrow> string" where
  "dec_nat n = (if n < 10 then [''0123456789'' ! n] else dec_nat (n div 10) @ [''0123456789'' ! (n mod 10)])"

definition dec_int :: "int \<Rightarrow> string" where
  "dec_int i = (if i < 0 then ''-'' @ dec_nat (nat (- i)) else dec_nat (nat i))"

text \<open>
  \<^verbatim>\<open>repr\<close> of a string: single quotes unless the string holds a single quote and no
  double quote; backslash, the quote, tab, newline, carriage return and the other ASCII
  control characters are escaped. Bytes beyond ASCII are kept (Python escapes the few
  non-printable code points among them; the model does not tell them apart).
\<close>

definition hex2 :: "char \<Rightarrow> string" where
  "hex2 c = [''0123456789abcdef'' ! ((of_char c :: nat) div 16), ''0123456789abcdef'' ! ((of_char c :: nat) mod 16)]"

definition repr_char :: "char \<Rightarrow> char \<Rightarrow> string" where
  "repr_char q c =
     (if c = CHR 0x5C then [CHR 0x5C, CHR 0x5C]
      else if c = q then [CHR 0x5C, q]
      else if c = CHR 0x09 then [CHR 0x5C, CHR ''t'']
      else if c = CHR 0x0A then [CHR 0x5C, CHR ''n'']
      else if c = CHR 0x0D then [CHR 0x5C, CHR ''r'']
      else if (of_char c :: nat) < 32 \<or> (of_char c :: nat) = 127 then [CHR 0x5C, CHR ''x''] @ hex2 c
      else [c])"

definition repr_str :: "string \<Rightarrow> string" where
  "repr_str s =
     (let q = (if CHR 0x27 \<in> set s \<and> CHR 0x22 \<notin> set s then CHR 0x22 else CHR 0x27)
      in [q] @ concat (map (repr_char q) s) @ [q])"

fun py_repr :: "json \<Rightarrow> string" where
  "py_repr JNull = ''None''"
| "py_repr (JBool b) = (if b then ''True'' else ''False'')"
| "py_repr (JInt i) = dec_int i"
| "py_repr (JStr s) = repr_str s"
| "py_repr (JArr xs) = ''['' @ str_join '', '' (map py_repr xs) @ '']''"
| "py_repr (JObj kvs) =
     ''{'' @ str_join '', '' (map (\<lambda>kv. repr_str (fst kv) @ '': '' @ py_repr (snd kv)) kvs) @ ''}''"

text \<open>What an f-string puts in place of \<^verbatim>\<open>{v}\<close>: \<^verbatim>\<open>str(v)\<close>.\<close>

fun py_str :: "json \<Rightarrow> string" where
  "py_str (JStr s) = s"
| "py_str v = py_repr v"

text \<open>\<^verbatim>\<open>s.replace(old, new)\<close> for a non-empty \<open>old\<close> (the only use replaces the closing
  style tag): every occurrence, left to right, without overlap.\<close>

fun str_replace :: "string \<Rightarrow> string \<Rightarrow> string \<Rightarrow> string" where
  "str_replace old new [] = []"
| "str_replace old new (c # cs) =
     (if old \<noteq> [] \<and> prefix old (c # cs)
      then new @ str_replace old new (drop (length old - 1) cs)
      else c # str_replace old new cs)"

text \<open>\<^verbatim>\<open>s.endswith((e1, e2, ...))\<close>: only strings have the method.\<close>

fun endswith :: "json \<Rightarrow> string list \<Rightarrow> py_error + bool" where
  "endswith (JStr s) exts = Inr (list_ex (\<lambda>e. suffix e s) exts)"
| "endswith v exts = Inl AttributeError"

section \<open>\<^verbatim>\<open>sidebar.py\<close>: the shared page shell\<close>

subsection \<open>Profile image and sidebar links\<close>

definition generate_profile_image :: "json \<Rightarrow> py_error + string" where
  \<open>generate_profile_image profile =
     bnd (py_get profile ''image'' JNull) (\<lambda>has_image.
       if truthy has_image then
         bnd (subscript profile ''image'') (\<lambda>image.
         bnd (subscript profile ''name'') (\<lambda>name.
           Inr (''<img src="'' @
              py_str image @
              ''" alt="'' @
              py_str name @
              ''">'')))
       else Inr ''<i class="fas fa-user"></i>'')\<close>

text \<open>One pass of the loop of \<^verbatim>\<open>_generate_sidebar_links\<close>.\<close>

definition sidebar_link_item :: "json \<Rightarrow> py_error + string" where
  \<open>sidebar_link_item link =
     bnd (py_get link ''icon'' (JStr ''fas fa-link'')) (\<lambda>icon.
     bnd (py_get link ''label'' (JStr '''')) (\<lambda>label.
     bnd (py_get link ''url'' JNull) (\<lambda>url.
       if truthy url then
         Inr (''<li><a href="'' @
              py_str url @
              ''" target="_blank" rel="noopener"><i class="'' @
              py_str icon @
              ''" aria-hidden="true"></i> '' @
              py_str label @
              ''</a></li>'')
       else
         Inr (''<li><i class="'' @
              py_str icon @
              ''" aria-hidden="true"></i> '' @
              py_str label @
              ''</li>''))))\<close>

definition generate_sidebar_links :: "json \<Rightarrow> py_error + string" where
  \<open>generate_sidebar_links links =
     bnd (py_iter links) (\<lambda>ls.
     bnd (mapM sidebar_link_item ls) (\<lambda>items.
       Inr (str_join (''\<newline>'' @
                  ''          '') items)))\<close>

definition get_nav_brand :: "json \<Rightarrow> py_error + json" where
  "get_nav_brand sidebar = subscript sidebar ''nav_brand''"

subsection \<open>The left sidebar\<close>

definition bio_line_span :: "json \<Rightarrow> string" where
  \<open>bio_line_span line = ''<span class="bio-line">'' @
      py_str line @
      ''</span>''\<close>

text \<open>The \<^verbatim>\<open>if\<close>/\<^verbatim>\<open>elif\<close> that computes \<^verbatim>\<open>bio_html\<close>.\<close>

definition sidebar_bio_html :: "json \<Rightarrow> py_error + string" where
  \<open>sidebar_bio_html profile =
     bnd (py_get profile ''bio_lines'' JNull) (\<lambda>has_lines.
       if truthy has_lines then
         bnd (subscript profile ''bio_lines'') (\<lambda>bio_lines.
         bnd (py_iter bio_lines) (\<lambda>lines.
           let bio_items = str_join '''' (map bio_line_span lines)
           in Inr (''<div class="author__bio">'' @
              bio_items @
              ''</div>'')))
       else
         bnd (py_get profile ''bio'' JNull) (\<lambda>has_bio.
           if truthy has_bio then
             bnd (subscript profile ''bio'') (\<lambda>bio.
               Inr (''<p class="author__bio">'' @
              py_str bio @
              ''</p>''))
           else Inr ''''))\<close>

text \<open>The template the function returns, with its four slots.\<close>

definition sidebar_template :: "html \<Rightarrow> string \<Rightarrow> html \<Rightarrow> html \<Rightarrow> html" where
  \<open>sidebar_template profile_image name bio_html links_html =
      ''<aside class="sidebar">\<newline>'' @
      ''      <div class="sidebar-content">\<newline>'' @
      ''        <div class="author__avatar">\<newline>'' @
      ''          '' @
      profile_image @
      ''\<newline>'' @
      ''        </div>\<newline>'' @
      ''        <div class="author__content">\<newline>'' @
      ''          <h3 class="author__name">'' @
      name @
      ''</h3>\<newline>'' @
      ''          '' @
      bio_html @
      ''\<newline>'' @
      ''        </div>\<newline>'' @
      ''        <div class="author__urls-wrapper">\<newline>'' @
      ''          <ul class="author__urls">\<newline>'' @
      ''            '' @
      links_html @
      ''\<newline>'' @
      ''          </ul>\<newline>'' @
      ''        </div>\<newline>'' @
      ''      </div>\<newline>'' @
      ''    </aside>''\<close>

definition get_sidebar_html :: "json \<Rightarrow> py_error + string" where
  "get_sidebar_html sidebar =
     bnd (subscript sidebar ''profile'') (\<lambda>profile.
     bnd (py_get sidebar ''sidebar_links'' (JArr [])) (\<lambda>links.
     bnd (sidebar_bio_html profile) (\<lambda>bio_html.
     bnd (generate_profile_image profile) (\<lambda>profile_image.
     bnd (subscript profile ''name'') (\<lambda>name.
     bnd (generate_sidebar_links links) (\<lambda>links_html.
       Inr (sidebar_template profile_image (py_str name) bio_html links_html)))))))"

subsection \<open>Footer\<close>

definition get_footer_html :: "json \<Rightarrow> py_error + string" where
  \<open>get_footer_html sidebar =
     bnd (subscript sidebar ''footer'') (\<lambda>footer.
     bnd (subscript footer ''copyright_year'') (\<lambda>copyright_year.
     bnd (subscript footer ''copyright_name'') (\<lambda>copyright_name.
       Inr (''<footer>\<newline>'' @
            ''    <p class="footer-text">\<newline>'' @
            ''      '' @
            [CHR 0xC2, CHR 0xA9] @
            '' '' @
            py_str copyright_year @
            '' '' @
            py_str copyright_name @
            ''.\<newline>'' @
            ''    </p>\<newline>'' @
            ''  </footer>''))))\<close>

subsection \<open>Navigation links\<close>

definition nav_pages :: "string \<Rightarrow> (string \<times> string \<times> string \<times> bool) list" where
  "nav_pages cv_file =
     [(''bio'', ''index.html'', ''Biography'', False),
      (''research'', ''research.html'', ''Research'', False),
      (''publications'', ''publications.html'', ''Publications'', False),
      (''teaching'', ''teaching.html'', ''Teaching'', False),
      (''cv'', cv_file, ''CV'', True)]"

definition nav_active_class :: "string \<Rightarrow> string \<Rightarrow> string" where
  \<open>nav_active_class page_id active_page = (if page_id = active_page then '' class="active"'' else '''')\<close>

definition nav_target :: "bool \<Rightarrow> string" where
  \<open>nav_target new_tab = (if new_tab then '' target="_blank" rel="noopener"'' else '''')\<close>

text \<open>One pass of the loop of \<^verbatim>\<open>get_nav_html\<close>.\<close>

definition nav_link :: "string \<Rightarrow> string \<times> string \<times> string \<times> bool \<Rightarrow> string" where
  \<open>nav_link active_page p =
     (case p of (page_id, href, label, new_tab) \<Rightarrow>
        ''<li><a href="'' @
        href @
        ''"'' @
        nav_active_class page_id active_page @
        nav_target new_tab @
        ''>'' @
        label @
        ''</a></li>'')\<close>

text \<open>\<^verbatim>\<open>get_nav_html(active_page, sidebar)\<close>; a call without the second argument passes
  \<^verbatim>\<open>None\<close>, here \<open>JNull\<close>.\<close>

definition get_nav_html :: "string \<Rightarrow> json \<Rightarrow> py_error + string" where
  \<open>get_nav_html active_page sidebar =
     bnd (if truthy sidebar then py_get sidebar ''cv_file'' (JStr ''cv.pdf'') else Inr (JStr ''cv.pdf'')) (\<lambda>cv_file.
       Inr (str_join (''\<newline>'' @
                  ''        '')
              (map (nav_link active_page) (nav_pages (py_str cv_file)))))\<close>

subsection \<open>Base CSS and the head\<close>

text \<open>The style sheet text of \<^verbatim>\<open>get_base_css\<close>, with the eight colours it interpolates.\<close>

definition base_css_template ::
  "colour \<Rightarrow> colour \<Rightarrow> colour \<Rightarrow> colour \<Rightarrow> colour \<Rightarrow> colour \<Rightarrow> colour \<Rightarrow> colour \<Rightarrow> css" where
  \<open>base_css_template accent_light accent_hover_light link_color_light link_hover_light
       accent_dark accent_hover_dark link_color_dark link_hover_dark =
      ''\<newline>'' @
      ''    /* ============'' @
      ''============'' @
      ''============'' @
      ''========\<newline>'' @
      ''       CSS VARIABLES\<newline>'' @
      ''       ============'' @
      ''============'' @
      ''============'' @
      ''======== */\<newline>'' @
      ''    :root {\<newline>'' @
      ''      --primary-color: #494e52;\<newline>'' @
      ''      --link-color: #494e52;\<newline>'' @
      ''      --link-hover: #000000;\<newline>'' @
      ''      --text-color: #494e52;\<newline>'' @
      ''      --text-muted: #494e52;\<newline>'' @
      ''      --bg-color: #ffffff;\<newline>'' @
      ''      --bg-sidebar: #ffffff;\<newline>'' @
      ''      --border-color: #e0e0e0;\<newline>'' @
      ''      --shadow: 0 1px 1px rgba(0,0,0,0.125);\<newline>'' @
      ''      --sidebar-width: 260px;\<newline>'' @
      ''      --nav-height: 50px;\<newline>'' @
      ''      --accent-color: '' @
      accent_light @
      '';\<newline>'' @
      ''      --accent-hover: '' @
      accent_hover_light @
      '';\<newline>'' @
      ''      --action-link-color: '' @
      link_color_light @
      '';\<newline>'' @
      ''      --action-link-hover: '' @
      link_hover_light @
      '';\<newline>'' @
      ''    }\<newline>'' @
      ''\<newline>'' @
      ''    /* ============'' @
      ''============'' @
      ''============'' @
      ''========\<newline>'' @
      ''       BASE STYLES\<newline>'' @
      ''       ============'' @
      ''============'' @
      ''============'' @
      ''======== */\<newline>'' @
      ''    *, *::before, *::after { box-sizing: border-box; margin: 0; padding: 0; }\<newline>'' @
      ''    html { scroll-behavior: smooth; }\<newline>'' @
      ''    body {\<newline>'' @
      ''      font-family: \'Roboto\', -apple-system, BlinkMacSystemFont, sans-serif;\<newline>'' @
      ''      font-size: 16px;\<newline>'' @
      ''      line-height: 1.6;\<newline>'' @
      ''      color: var(--text-color);\<newline>'' @
      ''      background-color: var(--bg-color);\<newline>'' @
      ''    }\<newline>'' @
      ''\<newline>'' @
      ''    a { color: var(--link-color); text-decoration: none; transition: color 0.2s ease; }\<newline>'' @
      ''    a:hover { color: var(--link-hover); text-decoration: underline; }\<newline>'' @
      ''\<newline>'' @
      ''    /* ============'' @
      ''============'' @
      ''============'' @
      ''========\<newline>'' @
      ''       NAVIGATION BAR\<newline>'' @
      ''       ============'' @
      ''============'' @
      ''============'' @
      ''======== */\<newline>'' @
      ''    nav {\<newline>'' @
      ''      position: fixed;\<newline>'' @
      ''      top: 0;\<newline>'' @
      ''      left: 0;\<newline>'' @
      ''      right: 0;\<newline>'' @
      ''      height: var(--nav-height);\<newline>'' @
      ''      background: var(--bg-color);\<newline>'' @
      ''      border-bottom: 1px solid var(--border-color);\<newline>'' @
      ''      z-index: 1000;\<newline>'' @
      ''      display: flex;\<newline>'' @
      ''      align-items: center;\<newline>'' @
      ''      justify-content: center;\<newline>'' @
      ''    }\<newline>'' @
      ''\<newline>'' @
      ''    .nav-container {\<newline>'' @
      ''      width: 100%;\<newline>'' @
      ''      max-width: 1400px;\<newline>'' @
      ''      padding: 0 1.5rem;\<newline>'' @
      ''      display: flex;\<newline>'' @
      ''      align-items: center;\<newline>'' @
      ''      justify-content: space-between;\<newline>'' @
      ''    }\<newline>'' @
      ''\<newline>'' @
      ''    .nav-brand {\<newline>'' @
      ''      font-family: \'Roboto Slab\', serif;\<newline>'' @
      ''      font-size: 1.1rem;\<newline>'' @
      ''      font-weight: 700;\<newline>'' @
      ''      color: var(--text-color);\<newline>'' @
      ''      letter-spacing: -0.5px;\<newline>'' @
      ''    }\<newline>'' @
      ''    .nav-brand:hover { text-decoration: none; color: var(--link-color); }\<newline>'' @
      ''\<newline>'' @
      ''    .nav-links { display: flex; gap: 1.5rem; list-style: none; }\<newline>'' @
      ''    .nav-links a { \<newline>'' @
      ''      color: var(--text-muted); \<newline>'' @
      ''      font-size: 0.85rem; \<newline>'' @
      ''      font-weight: 400; \<newline>'' @
      ''      text-transform: uppercase;\<newline>'' @
      ''      letter-spacing: 0.5px;\<newline>'' @
      ''    }\<newline>'' @
      ''    .nav-links a:hover, .nav-links a.active { color: var(--text-color); text-decoration: none; }\<newline>'' @
      ''\<newline>'' @
      ''    .nav-toggle {\<newline>'' @
      ''      display: none;\<newline>'' @
      ''      background: none;\<newline>'' @
      ''      border: none;\<newline>'' @
      ''      font-size: 1.25rem;\<newline>'' @
      ''      cursor: pointer;\<newline>'' @
      ''      color: var(--text-color);\<newline>'' @
      ''    }\<newline>'' @
      ''\<newline>'' @
      ''    .theme-toggle {\<newline>'' @
      ''      background: none;\<newline>'' @
      ''      border: none;\<newline>'' @
      ''      cursor: pointer;\<newline>'' @
      ''      font-size: 1rem;\<newline>'' @
      ''      color: var(--text-muted);\<newline>'' @
      ''      padding: 0.4rem;\<newline>'' @
      ''      border-radius: 50%;\<newline>'' @
      ''    }\<newline>'' @
      ''    .theme-toggle:hover { color: var(--text-color); }\<newline>'' @
      ''\<newline>'' @
      ''    /* ============'' @
      ''============'' @
      ''============'' @
      ''========\<newline>'' @
      ''       PAGE LAYOUT\<newline>'' @
      ''       ============'' @
      ''============'' @
      ''============'' @
      ''======== */\<newline>'' @
      ''    .page-wrapper {\<newline>'' @
      ''      display: flex;\<newline>'' @
      ''      margin-top: var(--nav-height);\<newline>'' @
      ''      min-height: calc(100vh - var(--nav-height));\<newline>'' @
      ''      max-width: 1400px;\<newline>'' @
      ''      margin-left: auto;\<newline>'' @
      ''      margin-right: auto;\<newline>'' @
      ''    }\<newline>'' @
      ''\<newline>'' @
      ''    /* ============'' @
      ''============'' @
      ''============'' @
      ''========\<newline>'' @
      ''       LEFT SIDEBAR\<newline>'' @
      ''       ============'' @
      ''============'' @
      ''============'' @
      ''======== */\<newline>'' @
      ''    .sidebar {\<newline>'' @
      ''      width: var(--sidebar-width);\<newline>'' @
      ''      flex-shrink: 0;\<newline>'' @
      ''      background: var(--bg-color);\<newline>'' @
      ''      border-right: 1px solid var(--border-color);\<newline>'' @
      ''    }\<newline>'' @
      ''\<newline>'' @
      ''    .sidebar-content {\<newline>'' @
      ''      position: sticky;\<newline>'' @
      ''      top: calc(var(--nav-height) + 1rem);\<newline>'' @
      ''      padding: 1.5rem 1rem;\<newline>'' @
      ''    }\<newline>'' @
      ''\<newline>'' @
      ''    .author__avatar {\<newline>'' @
      ''      display: block;\<newline>'' @
      ''      width: 180px;\<newline>'' @
      ''      height: 180px;\<newline>'' @
      ''      margin: 0 0 0.75rem 0;\<newline>'' @
      ''    }\<newline>'' @
      ''\<newline>'' @
      ''    .author__avatar img {\<newline>'' @
      ''      width: 100%;\<newline>'' @
      ''      height: 100%;\<newline>'' @
      ''      border-radius: 50%;\<newline>'' @
      ''      object-fit: cover;\<newline>'' @
      ''      border: 1px solid var(--border-color);\<newline>'' @
      ''      padding: 3px;\<newline>'' @
      ''      background: var(--bg-color);\<newline>'' @
      ''    }\<newline>'' @
      ''\<newline>'' @
      ''    .author__content {\<newline>'' @
      ''      text-align: left;\<newline>'' @
      ''      margin-bottom: 1rem;\<newline>'' @
      ''    }\<newline>'' @
      ''\<newline>'' @
      ''    .author__name {\<newline>'' @
      ''      font-family: \'Roboto Slab\', serif;\<newline>'' @
      ''      font-size: 1.1rem;\<newline>'' @
      ''      font-weight: 700;\<newline>'' @
      ''      color: var(--text-color);\<newline>'' @
      ''      margin-bottom: 0.25rem;\<newline>'' @
      ''    }\<newline>'' @
      ''\<newline>'' @
      ''    .author__bio {\<newline>'' @
      ''      font-size: 0.85rem;\<newline>'' @
      ''      color: var(--text-color);\<newline>'' @
      ''      line-height: 1.5;\<newline>'' @
      ''    }\<newline>'' @
      ''\<newline>'' @
      ''    .author__bio .bio-line {\<newline>'' @
      ''      display: block;\<newline>'' @
      ''      margin-bottom: 0;\<newline>'' @
      ''    }\<newline>'' @
      ''\<newline>'' @
      ''    .author__urls-wrapper { margin-top: 1rem; }\<newline>'' @
      ''\<newline>'' @
      ''    .author__urls {\<newline>'' @
      ''      list-style: none;\<newline>'' @
      ''      font-size: 0.8rem;\<newline>'' @
      ''    }\<newline>'' @
      ''\<newline>'' @
      ''    .author__urls li {\<newline>'' @
      ''      white-space: nowrap;\<newline>'' @
      ''      padding: 0.2rem 0;\<newline>'' @
      ''      color: var(--text-muted);\<newline>'' @
      ''    }\<newline>'' @
      ''\<newline>'' @
      ''    .author__urls li i {\<newline>'' @
      ''      width: 1.25em;\<newline>'' @
      ''      text-align: center;\<newline>'' @
      ''      margin-right: 0.4rem;\<newline>'' @
      ''      color: var(--text-muted);\<newline>'' @
      ''    }\<newline>'' @
      ''\<newline>'' @
      ''    .author__urls a { color: var(--text-color); }\<newline>'' @
      ''    .author__urls a:hover { color: var(--link-color); text-decoration: underline; }\<newline>'' @
      ''    .author__urls a i { color: var(--text-muted); }\<newline>'' @
      ''\<newline>'' @
      ''    /* ============'' @
      ''============'' @
      ''============'' @
      ''========\<newline>'' @
      ''       MAIN CONTENT AREA\<newline>'' @
      ''       ============'' @
      ''============'' @
      ''============'' @
      ''======== */\<newline>'' @
      ''    .main-content {\<newline>'' @
      ''      flex: 1;\<newline>'' @
      ''      padding: 2rem 3rem 2rem 2.5rem;\<newline>'' @
      ''    }\<newline>'' @
      ''\<newline>'' @
      ''    /* Section headings */\<newline>'' @
      ''    .main-content h2 {\<newline>'' @
      ''      font-family: \'Roboto Slab\', serif;\<newline>'' @
      ''      font-size: 1.4rem;\<newline>'' @
      ''      font-weight: 700;\<newline>'' @
      ''      color: var(--text-color);\<newline>'' @
      ''      margin-bottom: 0.6rem;\<newline>'' @
      ''      padding-bottom: 0.4rem;\<newline>'' @
      ''      border-bottom: 1px solid var(--border-color);\<newline>'' @
      ''    }\<newline>'' @
      ''\<newline>'' @
      ''    /* Section container */\<newline>'' @
      ''    .section { margin-bottom: 2rem; }\<newline>'' @
      ''\<newline>'' @
      ''    /* Default paragraph styling for sections */\<newline>'' @
      ''    .section > p {\<newline>'' @
      ''      color: var(--text-color);\<newline>'' @
      ''      margin-bottom: 1.25rem;\<newline>'' @
      ''      text-align: justify;\<newline>'' @
      ''      font-size: 1.05rem;\<newline>'' @
      ''      line-height: 1.7;\<newline>'' @
      ''    }\<newline>'' @
      ''\<newline>'' @
      ''    /* ============'' @
      ''============'' @
      ''============'' @
      ''========\<newline>'' @
      ''       FOOTER\<newline>'' @
      ''       ============'' @
      ''============'' @
      ''============'' @
      ''======== */\<newline>'' @
      ''    footer {\<newline>'' @
      ''      padding: 1.25rem 1.5rem;\<newline>'' @
      ''      background: var(--bg-color);\<newline>'' @
      ''      border-top: 1px solid var(--border-color);\<newline>'' @
      ''      text-align: center;\<newline>'' @
      ''    }\<newline>'' @
      ''\<newline>'' @
      ''    .footer-text { color: var(--text-muted); font-size: 0.8rem; }\<newline>'' @
      ''    .footer-text a { color: var(--text-muted); }\<newline>'' @
      ''\<newline>'' @
      ''    /* ============'' @
      ''============'' @
      ''============'' @
      ''========\<newline>'' @
      ''       DARK MODE\<newline>'' @
      ''       ============'' @
      ''============'' @
      ''============'' @
      ''======== */\<newline>'' @
      ''    [data-theme="dark"] {\<newline>'' @
      ''      --primary-color: #e2e2e2;\<newline>'' @
      ''      --link-color: #e2e2e2;\<newline>'' @
      ''      --link-hover: #ffffff;\<newline>'' @
      ''      --text-color: #e2e2e2;\<newline>'' @
      ''      --text-muted: #e2e2e2;\<newline>'' @
      ''      --bg-color: #252a34;\<newline>'' @
      ''      --bg-sidebar: #252a34;\<newline>'' @
      ''      --border-color: #3a3f4b;\<newline>'' @
      ''      --accent-color: '' @
      accent_dark @
      '';\<newline>'' @
      ''      --accent-hover: '' @
      accent_hover_dark @
      '';\<newline>'' @
      ''      --action-link-color: '' @
      link_color_dark @
      '';\<newline>'' @
      ''      --action-link-hover: '' @
      link_hover_dark @
      '';\<newline>'' @
      ''    }\<newline>'' @
      ''\<newline>'' @
      ''    /* ============'' @
      ''============'' @
      ''============'' @
      ''========\<newline>'' @
      ''       RESPONSIVE - TABLET (<=900px)\<newline>'' @
      ''       ============'' @
      ''============'' @
      ''============'' @
      ''======== */\<newline>'' @
      ''    @media (max-width: 900px) {\<newline>'' @
      ''      .page-wrapper { flex-direction: column; }\<newline>'' @
      ''\<newline>'' @
      ''      .sidebar {\<newline>'' @
      ''        width: 100%;\<newline>'' @
      ''        border-right: none;\<newline>'' @
      ''        border-bottom: 1px solid var(--border-color);\<newline>'' @
      ''      }\<newline>'' @
      ''\<newline>'' @
      ''      .sidebar-content {\<newline>'' @
      ''        position: static;\<newline>'' @
      ''        padding: 1.25rem;\<newline>'' @
      ''        display: flex;\<newline>'' @
      ''        flex-direction: column;\<newline>'' @
      ''        align-items: center;\<newline>'' @
      ''      }\<newline>'' @
      ''\<newline>'' @
      ''      .author__avatar { width: 100px; height: 100px; }\<newline>'' @
      ''\<newline>'' @
      ''      .author__urls {\<newline>'' @
      ''        display: flex;\<newline>'' @
      ''        flex-wrap: wrap;\<newline>'' @
      ''        justify-content: center;\<newline>'' @
      ''        gap: 0.5rem 1rem;\<newline>'' @
      ''      }\<newline>'' @
      ''\<newline>'' @
      ''      .main-content { padding: 1.5rem; max-width: 100%; }\<newline>'' @
      ''    }\<newline>'' @
      ''\<newline>'' @
      ''    /* ============'' @
      ''============'' @
      ''============'' @
      ''========\<newline>'' @
      ''       RESPONSIVE - MOBILE (<=768px)\<newline>'' @
      ''       ============'' @
      ''============'' @
      ''============'' @
      ''======== */\<newline>'' @
      ''    @media (max-width: 768px) {\<newline>'' @
      ''      .nav-links {\<newline>'' @
      ''        display: none;\<newline>'' @
      ''        position: absolute;\<newline>'' @
      ''        top: var(--nav-height);\<newline>'' @
      ''        left: 0;\<newline>'' @
      ''        right: 0;\<newline>'' @
      ''        background: var(--bg-color);\<newline>'' @
      ''        flex-direction: column;\<newline>'' @
      ''        padding: 1rem 1.5rem;\<newline>'' @
      ''        gap: 0.75rem;\<newline>'' @
      ''        border-bottom: 1px solid var(--border-color);\<newline>'' @
      ''        box-shadow: var(--shadow);\<newline>'' @
      ''      }\<newline>'' @
      ''      .nav-links.active { display: flex; }\<newline>'' @
      ''      .nav-toggle { display: block; }\<newline>'' @
      ''    }\<newline>''\<close>

text \<open>The light and dark colour tables: the theme's, or empty dictionaries.\<close>

definition theme_tables :: "json \<Rightarrow> py_error + json \<times> json" where
  "theme_tables sidebar =
     bnd (if truthy sidebar then py_in ''theme'' sidebar else Inr False) (\<lambda>has_theme.
       if has_theme then
         bnd (subscript sidebar ''theme'') (\<lambda>theme.
         bnd (py_get theme ''light'' (JObj [])) (\<lambda>light.
         bnd (subscript sidebar ''theme'') (\<lambda>theme'.
         bnd (py_get theme' ''dark'' (JObj [])) (\<lambda>dark.
           Inr (light, dark)))))
       else Inr (JObj [], JObj []))"

definition get_base_css :: "json \<Rightarrow> py_error + string" where
  "get_base_css sidebar =
     bnd (theme_tables sidebar) (\<lambda>tables.
     bnd (py_get (fst tables) ''accent_color'' (JStr ''#0D9488'')) (\<lambda>accent_light.
     bnd (py_get (fst tables) ''accent_hover'' (JStr ''#0F766E'')) (\<lambda>accent_hover_light.
     bnd (py_get (fst tables) ''link_color'' (JStr ''#0066cc'')) (\<lambda>link_color_light.
     bnd (py_get (fst tables) ''link_hover'' (JStr ''#004499'')) (\<lambda>link_hover_light.
     bnd (py_get (snd tables) ''accent_color'' (JStr ''#2DD4BF'')) (\<lambda>accent_dark.
     bnd (py_get (snd tables) ''accent_hover'' (JStr ''#5EEAD4'')) (\<lambda>accent_hover_dark.
     bnd (py_get (snd tables) ''link_color'' (JStr ''#60A5FA'')) (\<lambda>link_color_dark.
     bnd (py_get (snd tables) ''link_hover'' (JStr ''#93C5FD'')) (\<lambda>link_hover_dark.
       Inr (base_css_template (py_str accent_light) (py_str accent_hover_light)
              (py_str link_color_light) (py_str link_hover_light)
              (py_str accent_dark) (py_str accent_hover_dark)
              (py_str link_color_dark) (py_str link_hover_dark)))))))))))"

definition head_template :: "string \<Rightarrow> string \<Rightarrow> css \<Rightarrow> css \<Rightarrow> html" where
  \<open>head_template description title base_css page_css =
      ''<head>\<newline>'' @
      ''  <meta charset="UTF-8">\<newline>'' @
      ''  <meta name="viewport" content="width=device-width, initial-scale=1.0">\<newline>'' @
      ''  <meta name="description" content="'' @
      description @
      ''">\<newline>'' @
      ''  <title>'' @
      title @
      ''</title>\<newline>'' @
      ''  \<newline>'' @
      ''  <link rel="preconnect" href="https://fonts.googleapis.com">\<newline>'' @
      ''  <link rel="preconnect" href="https://fonts.gstatic.com" crossorigin>\<newline>'' @
      ''  <link href="https://fonts.googleapis.com/css2?family=Roboto:wght@300;400;500;700&family=Roboto+Slab:wght@400;500;700&display=swap" rel="stylesheet">\<newline>'' @
      ''  <link rel="stylesheet" href="https://cdnjs.cloudflare.com/ajax/libs/font-awesome/6.5.1/css/all.min.css">\<newline>'' @
      ''  <link rel="stylesheet" href="https://cdn.jsdelivr.net/gh/jpswalsh/academicons@1/css/academicons.min.css">\<newline>'' @
      ''  \<newline>'' @
      ''  <style>\<newline>'' @
      base_css @
      ''\<newline>'' @
      page_css @
      ''\<newline>'' @
      ''  </style>\<newline>'' @
      ''</head>''\<close>

text \<open>\<^verbatim>\<open>get_base_head_html(title, description, page_css, sidebar)\<close>; the title and the
  description are values of the content document.\<close>

definition get_base_head_html :: "json \<Rightarrow> json \<Rightarrow> string \<Rightarrow> json \<Rightarrow> py_error + string" where
  "get_base_head_html title description page_css sidebar =
     bnd (get_base_css sidebar) (\<lambda>base_css.
       Inr (head_template (py_str description) (py_str title) base_css page_css))"

definition get_js_code :: string where
  \<open>get_js_code =
      ''\<newline>'' @
      ''    const navToggle = document.querySelector(\'.nav-toggle\');\<newline>'' @
      ''    const navLinks = document.querySelector(\'.nav-links\');\<newline>'' @
      ''    navToggle.addEventListener(\'click\', () => navLinks.classList.toggle(\'active\'));\<newline>'' @
      ''\<newline>'' @
      ''    const themeToggle = document.querySelector(\'.theme-toggle\');\<newline>'' @
      ''    const themeIcon = themeToggle.querySelector(\'i\');\<newline>'' @
      ''    const savedTheme = localStorage.getItem(\'theme\') || \'light\';\<newline>'' @
      ''    document.documentElement.setAttribute(\'data-theme\', savedTheme);\<newline>'' @
      ''    themeIcon.className = savedTheme === \'dark\' ? \'fas fa-sun\' : \'fas fa-moon\';\<newline>'' @
      ''\<newline>'' @
      ''    themeToggle.addEventListener(\'click\', () => {\<newline>'' @
      ''      const currentTheme = document.documentElement.getAttribute(\'data-theme\');\<newline>'' @
      ''      const newTheme = currentTheme === \'dark\' ? \'light\' : \'dark\';\<newline>'' @
      ''      document.documentElement.setAttribute(\'data-theme\', newTheme);\<newline>'' @
      ''      localStorage.setItem(\'theme\', newTheme);\<newline>'' @
      ''      themeIcon.className = newTheme === \'dark\' ? \'fas fa-sun\' : \'fas fa-moon\';\<newline>'' @
      ''    });\<newline>'' @
      ''\<newline>'' @
      ''    navLinks.querySelectorAll(\'a\').forEach(link => {\<newline>'' @
      ''      link.addEventListener(\'click\', () => navLinks.classList.remove(\'active\'));\<newline>'' @
      ''    });\<newline>''\<close>

text \<open>The wrapper the research, publications and teaching scripts import.\<close>

definition get_head_html :: "json \<Rightarrow> json \<Rightarrow> json \<Rightarrow> py_error + string" where
  "get_head_html title description sidebar = get_base_head_html title description '''' sidebar"

section \<open>\<^verbatim>\<open>build_index.py\<close>: the biography page\<close>

definition get_index_css :: css where
  \<open>get_index_css =
      ''\<newline>'' @
      ''    /* ============'' @
      ''============'' @
      ''============'' @
      ''========\<newline>'' @
      ''       AFFILIATIONS SECTION\<newline>'' @
      ''       ============'' @
      ''============'' @
      ''============'' @
      ''======== */\<newline>'' @
      ''    .affiliation-item {\<newline>'' @
      ''      display: flex;\<newline>'' @
      ''      gap: 0.5rem;\<newline>'' @
      ''      align-items: stretch;\<newline>'' @
      ''      margin-bottom: 0.5rem;\<newline>'' @
      ''    }\<newline>'' @
      ''\<newline>'' @
      ''    .affiliation-logo {\<newline>'' @
      ''      width: 100px;\<newline>'' @
      ''      min-height: 100px;\<newline>'' @
      ''      flex-shrink: 0;\<newline>'' @
      ''      background-size: contain;\<newline>'' @
      ''      background-repeat: no-repeat;\<newline>'' @
      ''      background-position: center;\<newline>'' @
      ''    }\<newline>'' @
      ''\<newline>'' @
      ''    .affiliation-logo i {\<newline>'' @
      ''      font-size: 2.5rem;\<newline>'' @
      ''      color: var(--text-muted);\<newline>'' @
      ''    }\<newline>'' @
      ''\<newline>'' @
      ''    .affiliation-info {\<newline>'' @
      ''    }\<newline>'' @
      ''\<newline>'' @
      ''    .affiliation-logo i {\<newline>'' @
      ''      font-size: 1.5rem;\<newline>'' @
      ''      color: var(--text-muted);\<newline>'' @
      ''    }\<newline>'' @
      ''\<newline>'' @
      ''    .affiliation-info h3 {\<newline>'' @
      ''      font-family: \'Roboto Slab\', serif;\<newline>'' @
      ''      font-size: 1rem;\<newline>'' @
      ''      font-weight: 700;\<newline>'' @
      ''      color: var(--text-color);\<newline>'' @
      ''      margin: 0;\<newline>'' @
      ''      line-height: 1.4;\<newline>'' @
      ''    }\<newline>'' @
      ''\<newline>'' @
      ''    .affiliation-info p {\<newline>'' @
      ''      margin: 0;\<newline>'' @
      ''      font-size: 0.9rem;\<newline>'' @
      ''      line-height: 1.4;\<newline>'' @
      ''    }\<newline>'' @
      ''\<newline>'' @
      ''    .affiliation-info .role {\<newline>'' @
      ''      color: var(--text-color);\<newline>'' @
      ''    }\<newline>'' @
      ''\<newline>'' @
      ''    .affiliation-info .department {\<newline>'' @
      ''      color: var(--text-muted);\<newline>'' @
      ''    }\<newline>'' @
      ''\<newline>'' @
      ''    /* ============'' @
      ''============'' @
      ''============'' @
      ''========\<newline>'' @
      ''       DEGREES SECTION\<newline>'' @
      ''       ============'' @
      ''============'' @
      ''============'' @
      ''======== */\<newline>'' @
      ''    .degrees-list {\<newline>'' @
      ''      list-style: disc;\<newline>'' @
      ''      padding-left: 1.5rem;\<newline>'' @
      ''      margin: 0;\<newline>'' @
      ''    }\<newline>'' @
      ''\<newline>'' @
      ''    .degrees-list li {\<newline>'' @
      ''      margin-bottom: 0.5rem;\<newline>'' @
      ''      font-size: 1rem;\<newline>'' @
      ''      line-height: 1.5;\<newline>'' @
      ''    }\<newline>'' @
      ''\<newline>'' @
      ''    /* ============'' @
      ''============'' @
      ''============'' @
      ''========\<newline>'' @
      ''       NEWS SECTION\<newline>'' @
      ''       ============'' @
      ''============'' @
      ''============'' @
      ''======== */\<newline>'' @
      ''    .news-container {\<newline>'' @
      ''      max-height: 350px;\<newline>'' @
      ''      overflow-y: auto;\<newline>'' @
      ''      border: 1px solid var(--border-color);\<newline>'' @
      ''      padding: 0.75rem 1rem;\<newline>'' @
      ''      border-radius: 4px;\<newline>'' @
      ''    }\<newline>'' @
      ''\<newline>'' @
      ''    .news-list { \<newline>'' @
      ''      list-style: none;\<newline>'' @
      ''      padding-left: 0;\<newline>'' @
      ''      margin: 0;\<newline>'' @
      ''    }\<newline>'' @
      ''\<newline>'' @
      ''    .news-item {\<newline>'' @
      ''      padding: 0.3rem 0;\<newline>'' @
      ''      line-height: 1.5;\<newline>'' @
      ''      font-size: 0.9rem;\<newline>'' @
      ''    }\<newline>'' @
      ''\<newline>'' @
      ''    .news-date {\<newline>'' @
      ''      font-weight: 700;\<newline>'' @
      ''      color: var(--text-color);\<newline>'' @
      ''    }\<newline>'' @
      ''\<newline>'' @
      ''    .news-date::after {\<newline>'' @
      ''      content: ": ";\<newline>'' @
      ''    }\<newline>'' @
      ''\<newline>'' @
      ''    .news-content { \<newline>'' @
      ''      color: var(--text-color);\<newline>'' @
      ''    }\<newline>'' @
      ''\<newline>'' @
      ''    /* ============'' @
      ''============'' @
      ''============'' @
      ''========\<newline>'' @
      ''       BIO SECTION LINKS\<newline>'' @
      ''       ============'' @
      ''============'' @
      ''============'' @
      ''======== */\<newline>'' @
      ''    .section p a {\<newline>'' @
      ''      color: var(--action-link-color);\<newline>'' @
      ''    }\<newline>'' @
      ''\<newline>'' @
      ''    .section p a:hover {\<newline>'' @
      ''      color: var(--action-link-hover);\<newline>'' @
      ''      text-decoration: underline;\<newline>'' @
      ''    }\<newline>'' @
      ''\<newline>'' @
      ''    /* ============'' @
      ''============'' @
      ''============'' @
      ''========\<newline>'' @
      ''       SPONSORS SECTION\<newline>'' @
      ''       ============'' @
      ''============'' @
      ''============'' @
      ''======== */\<newline>'' @
      ''    .sponsors-grid {\<newline>'' @
      ''      display: flex;\<newline>'' @
      ''      flex-wrap: wrap;\<newline>'' @
      ''      gap: 1.5rem 2.5rem;\<newline>'' @
      ''      align-items: center;\<newline>'' @
      ''      justify-content: flex-start;\<newline>'' @
      ''    }\<newline>'' @
      ''\<newline>'' @
      ''    .sponsor-logo {\<newline>'' @
      ''      height: 40px;\<newline>'' @
      ''      width: auto;\<newline>'' @
      ''      max-width: 280px;\<newline>'' @
      ''      object-fit: contain;\<newline>'' @
      ''    }\<newline>'' @
      ''\<newline>'' @
      ''    /* Dark mode: invert logos for visibility */\<newline>'' @
      ''    [data-theme="dark"] .sponsor-logo {\<newline>'' @
      ''      filter: invert(1) hue-rotate(180deg);\<newline>'' @
      ''    }\<newline>''\<close>

definition generate_bio_paragraphs :: "json \<Rightarrow> py_error + html" where
  \<open>generate_bio_paragraphs bio =
     bnd (py_iter bio) (\<lambda>paragraphs.
       Inr (str_join (''\<newline>'' @
                  ''        '')
              (map (\<lambda>p. ''<p>'' @
                      py_str p @
                      ''</p>'') paragraphs)))\<close>

text \<open>The extensions that make a logo an image path rather than an icon name.\<close>

definition image_extensions :: "string list" where
  "image_extensions = [''.png'', ''.jpg'', ''.jpeg'', ''.svg'', ''.gif'', ''.webp'']"

text \<open>The \<^verbatim>\<open>if\<close>/\<^verbatim>\<open>else\<close> that computes \<^verbatim>\<open>logo_html\<close>.\<close>

definition affiliation_logo_html :: "json \<Rightarrow> py_error + html" where
  \<open>affiliation_logo_html logo_icon =
     bnd (endswith logo_icon image_extensions) (\<lambda>is_image.
       if is_image then
         Inr (''<div class="affiliation-logo" style="background-image: url('' @
              [CHR 0x27] @
              py_str logo_icon @
              ''\');"></div>'')
       else
         Inr (''<div class="affiliation-logo"><i class="fas '' @
              py_str logo_icon @
              ''"></i></div>''))\<close>

definition affiliation_template :: "html \<Rightarrow> string \<Rightarrow> string \<Rightarrow> string \<Rightarrow> html" where
  \<open>affiliation_template logo_html institution role dept_lines =
      ''<div class="affiliation-item">\<newline>'' @
      ''          '' @
      logo_html @
      ''\<newline>'' @
      ''          <div class="affiliation-info">\<newline>'' @
      ''            <h3>'' @
      institution @
      ''</h3>\<newline>'' @
      ''            <p class="role">'' @
      role @
      ''</p>\<newline>'' @
      ''            <p class="department">'' @
      dept_lines @
      ''</p>\<newline>'' @
      ''          </div>\<newline>'' @
      ''        </div>''\<close>

text \<open>One pass of the loop of \<^verbatim>\<open>generate_affiliations\<close>.\<close>

definition affiliation_item :: "json \<Rightarrow> py_error + html" where
  "affiliation_item aff =
     bnd (py_get aff ''department'' (JArr [])) (\<lambda>department.
     bnd (py_join ''<br>'' department) (\<lambda>dept_lines.
     bnd (py_get aff ''logo_icon'' (JStr ''fa-university'')) (\<lambda>logo_icon.
     bnd (affiliation_logo_html logo_icon) (\<lambda>logo_html.
     bnd (subscript aff ''institution'') (\<lambda>institution.
     bnd (subscript aff ''role'') (\<lambda>role.
       Inr (affiliation_template logo_html (py_str institution) (py_str role) dept_lines)))))))"

definition generate_affiliations :: "json \<Rightarrow> py_error + html" where
  \<open>generate_affiliations affiliations =
     bnd (py_iter affiliations) (\<lambda>affs.
     bnd (mapM affiliation_item affs) (\<lambda>items.
       Inr (str_join (''\<newline>'' @
                  ''        '') items)))\<close>

definition degree_item :: "json \<Rightarrow> py_error + html" where
  \<open>degree_item d =
     bnd (subscript d ''degree'') (\<lambda>degree.
     bnd (subscript d ''field'') (\<lambda>field.
     bnd (subscript d ''institution'') (\<lambda>institution.
     bnd (subscript d ''location'') (\<lambda>location.
       Inr (''<li><strong>'' @
            py_str degree @
            '', '' @
            py_str field @
            '',</strong> '' @
            py_str institution @
            '', '' @
            py_str location @
            ''</li>'')))))\<close>

definition generate_degrees :: "json \<Rightarrow> py_error + html" where
  \<open>generate_degrees degrees =
     bnd (py_iter degrees) (\<lambda>ds.
     bnd (mapM degree_item ds) (\<lambda>items.
       Inr (str_join (''\<newline>'' @
                  ''            '') items)))\<close>

definition news_item :: "json \<Rightarrow> py_error + html" where
  \<open>news_item n =
     bnd (subscript n ''date'') (\<lambda>date.
     bnd (subscript n ''content'') (\<lambda>body.
       Inr (''<li class="news-item">\<newline>'' @
            ''          <span class="news-date">'' @
            py_str date @
            ''</span><span class="news-content">'' @
            py_str body @
            ''</span>\<newline>'' @
            ''        </li>'')))\<close>

definition generate_news :: "json \<Rightarrow> py_error + html" where
  \<open>generate_news news =
     bnd (py_iter news) (\<lambda>ns.
     bnd (mapM news_item ns) (\<lambda>items.
       Inr (str_join (''\<newline>'' @
                  ''        '') items)))\<close>

definition sponsor_item :: "json \<Rightarrow> py_error + html" where
  \<open>sponsor_item s =
     bnd (subscript s ''logo'') (\<lambda>logo.
     bnd (subscript s ''name'') (\<lambda>name.
       Inr (''<img src="'' @
            py_str logo @
            ''" alt="'' @
            py_str name @
            ''" class="sponsor-logo">'')))\<close>

definition generate_sponsors :: "json \<Rightarrow> py_error + html" where
  \<open>generate_sponsors sponsors =
     bnd (py_iter sponsors) (\<lambda>ss.
     bnd (mapM sponsor_item ss) (\<lambda>items.
       Inr (str_join (''\<newline>'' @
                  ''          '') items)))\<close>

text \<open>The document template of \<^verbatim>\<open>build_html\<close>, with its slots in the order they are
  filled.\<close>

definition index_page ::
  "html \<Rightarrow> string \<Rightarrow> html \<Rightarrow> html \<Rightarrow> html \<Rightarrow> html \<Rightarrow> html \<Rightarrow> html \<Rightarrow> html \<Rightarrow> html \<Rightarrow> string \<Rightarrow> html" where
  \<open>index_page head_html nav_brand nav_html sidebar_html bio_html affiliations_html degrees_html
       news_html sponsors_html footer_html js_code =
      ''<!DOCTYPE html>\<newline>'' @
      ''<html lang="en">\<newline>'' @
      head_html @
      ''\<newline>'' @
      ''<body>\<newline>'' @
      ''  <nav>\<newline>'' @
      ''    <div class="nav-container">\<newline>'' @
      ''      <a href="index.html" class="nav-brand">'' @
      nav_brand @
      ''</a>\<newline>'' @
      ''      <button class="nav-toggle" aria-label="Toggle navigation">\<newline>'' @
      ''        <i class="fas fa-bars"></i>\<newline>'' @
      ''      </button>\<newline>'' @
      ''      <ul class="nav-links">\<newline>'' @
      ''        '' @
      nav_html @
      ''\<newline>'' @
      ''      </ul>\<newline>'' @
      ''      <button class="theme-toggle" aria-label="Toggle dark mode">\<newline>'' @
      ''        <i class="fas fa-moon"></i>\<newline>'' @
      ''      </button>\<newline>'' @
      ''    </div>\<newline>'' @
      ''  </nav>\<newline>'' @
      ''\<newline>'' @
      ''  <div class="page-wrapper">\<newline>'' @
      ''    '' @
      sidebar_html @
      ''\<newline>'' @
      ''\<newline>'' @
      ''    <main class="main-content">\<newline>'' @
      ''      <section class="section">\<newline>'' @
      ''        <h2>Biography</h2>\<newline>'' @
      ''        '' @
      bio_html @
      ''\<newline>'' @
      ''      </section>\<newline>'' @
      ''\<newline>'' @
      ''      <section class="section">\<newline>'' @
      ''        <h2>Current Affiliations</h2>\<newline>'' @
      ''        '' @
      affiliations_html @
      ''\<newline>'' @
      ''      </section>\<newline>'' @
      ''\<newline>'' @
      ''      <section class="section">\<newline>'' @
      ''        <h2>Degrees</h2>\<newline>'' @
      ''        <ul class="degrees-list">\<newline>'' @
      ''          '' @
      degrees_html @
      ''\<newline>'' @
      ''        </ul>\<newline>'' @
      ''      </section>\<newline>'' @
      ''\<newline>'' @
      ''      <section class="section">\<newline>'' @
      ''        <h2>News</h2>\<newline>'' @
      ''        <div class="news-container">\<newline>'' @
      ''          <ul class="news-list">\<newline>'' @
      ''            '' @
      news_html @
      ''\<newline>'' @
      ''          </ul>\<newline>'' @
      ''        </div>\<newline>'' @
      ''      </section>\<newline>'' @
      ''\<newline>'' @
      ''      <section class="section">\<newline>'' @
      ''        <h2>Affiliations &amp; Sponsors</h2>\<newline>'' @
      ''        <div class="sponsors-grid">\<newline>'' @
      ''          '' @
      sponsors_html @
      ''\<newline>'' @
      ''        </div>\<newline>'' @
      ''      </section>\<newline>'' @
      ''    </main>\<newline>'' @
      ''  </div>\<newline>'' @
      ''\<newline>'' @
      ''  '' @
      footer_html @
      ''\<newline>'' @
      ''\<newline>'' @
      ''  <script>'' @
      js_code @
      ''</script>\<newline>'' @
      ''</body>\<newline>'' @
      ''</html>''\<close>

text \<open>\<^verbatim>\<open>build_html(content, sidebar)\<close>. The head is requested without the sidebar
  argument, so \<^verbatim>\<open>get_base_head_html\<close> sees \<^verbatim>\<open>None\<close>; the navigation gets the sidebar.\<close>

definition index_build_html :: "json \<Rightarrow> json \<Rightarrow> py_error + html" where
  "index_build_html content sidebar =
     bnd (subscript content ''meta'') (\<lambda>meta.
     bnd (subscript meta ''title'') (\<lambda>title.
     bnd (subscript content ''meta'') (\<lambda>meta'.
     bnd (subscript meta' ''description'') (\<lambda>description.
     bnd (get_base_head_html title description get_index_css JNull) (\<lambda>head_html.
     bnd (get_nav_brand sidebar) (\<lambda>nav_brand.
     bnd (get_nav_html ''bio'' sidebar) (\<lambda>nav_html.
     bnd (get_sidebar_html sidebar) (\<lambda>sidebar_html.
     bnd (subscript content ''bio'') (\<lambda>bio.
     bnd (generate_bio_paragraphs bio) (\<lambda>bio_html.
     bnd (subscript content ''affiliations'') (\<lambda>affiliations.
     bnd (generate_affiliations affiliations) (\<lambda>affiliations_html.
     bnd (py_get content ''degrees'' (JArr [])) (\<lambda>degrees.
     bnd (generate_degrees degrees) (\<lambda>degrees_html.
     bnd (subscript content ''news'') (\<lambda>news.
     bnd (generate_news news) (\<lambda>news_html.
     bnd (py_get content ''sponsors'' (JArr [])) (\<lambda>sponsors.
     bnd (generate_sponsors sponsors) (\<lambda>sponsors_html.
     bnd (get_footer_html sidebar) (\<lambda>footer_html.
       Inr (index_page head_html (py_str nav_brand) nav_html sidebar_html bio_html
              affiliations_html degrees_html news_html sponsors_html footer_html
              get_js_code))))))))))))))))))))"

section \<open>\<^verbatim>\<open>build_research.py\<close>: the research page\<close>

definition generate_interests_html :: "json \<Rightarrow> py_error + html" where
  "generate_interests_html interests = py_join '', '' interests"

definition project_template :: "string \<Rightarrow> html \<Rightarrow> html \<Rightarrow> html" where
  \<open>project_template title image_html desc_html =
      ''<div class="project-item">\<newline>'' @
      ''        <h3 class="project-title">'' @
      title @
      ''</h3>\<newline>'' @
      ''        <div class="project-content">\<newline>'' @
      ''          '' @
      image_html @
      ''\<newline>'' @
      ''          <div class="project-description">\<newline>'' @
      ''            '' @
      desc_html @
      ''\<newline>'' @
      ''          </div>\<newline>'' @
      ''        </div>\<newline>'' @
      ''      </div>''\<close>

definition generate_project_html :: "json \<Rightarrow> py_error + html" where
  \<open>generate_project_html project =
     bnd (py_get project ''image'' (JStr '''')) (\<lambda>image.
     bnd (if truthy image then
            bnd (subscript project ''title'') (\<lambda>title.
              Inr (''<div class="project-image">\<newline>'' @
                   ''            <img src="'' @
                   py_str image @
                   ''" alt="'' @
                   py_str title @
                   ''">\<newline>'' @
                   ''          </div>''))
          else Inr '''') (\<lambda>image_html.
     bnd (subscript project ''description'') (\<lambda>description.
     bnd (py_iter description) (\<lambda>paragraphs.
     bnd (Inr (str_join (''\<newline>'' @
                        ''          '')
                 (map (\<lambda>para. ''<p>'' @
                            py_str para @
                            ''</p>'') paragraphs))) (\<lambda>desc_html.
     bnd (subscript project ''title'') (\<lambda>title.
       Inr (project_template (py_str title) image_html desc_html)))))))\<close>

definition generate_projects_html :: "json \<Rightarrow> py_error + html" where
  \<open>generate_projects_html projects =
     bnd (py_iter projects) (\<lambda>ps.
     bnd (mapM generate_project_html ps) (\<lambda>project_entries.
       Inr (str_join (''\<newline>'' @
                  ''      '') project_entries)))\<close>

definition get_research_css :: css where
  \<open>get_research_css =
      ''\<newline>'' @
      ''    /* ============'' @
      ''============'' @
      ''============'' @
      ''========\<newline>'' @
      ''       RESEARCH PAGE STYLES\<newline>'' @
      ''       Styles specific to the research page\<newline>'' @
      ''       ============'' @
      ''============'' @
      ''============'' @
      ''======== */\<newline>'' @
      ''    \<newline>'' @
      ''    /* Page introduction section */\<newline>'' @
      ''    .research-intro {\<newline>'' @
      ''      margin-bottom: 2rem;             /* Space below intro */\<newline>'' @
      ''    }\<newline>'' @
      ''    \<newline>'' @
      ''    /* Research interests heading */\<newline>'' @
      ''    .research-intro h1 {\<newline>'' @
      ''      font-family: \'Roboto Slab\', serif;  /* Serif font */\<newline>'' @
      ''      font-size: 1.6rem;               /* Large heading */\<newline>'' @
      ''      font-weight: 700;                /* Bold */\<newline>'' @
      ''      color: var(--text-color);        /* Text color */\<newline>'' @
      ''      margin-bottom: 0.75rem;          /* Space below */\<newline>'' @
      ''    }\<newline>'' @
      ''    \<newline>'' @
      ''    /* Research interests list */\<newline>'' @
      ''    .research-interests {\<newline>'' @
      ''      color: var(--text-color);        /* Text color */\<newline>'' @
      ''      font-size: 1rem;                 /* Standard size */\<newline>'' @
      ''      font-style: italic;              /* Italic for emphasis */\<newline>'' @
      ''      margin-bottom: 1.5rem;           /* Space below */\<newline>'' @
      ''      padding-bottom: 1rem;            /* Padding above border */\<newline>'' @
      ''      border-bottom: 1px solid var(--border-color);  /* Bottom border */\<newline>'' @
      ''    }\<newline>'' @
      ''\<newline>'' @
      ''    /* Research projects section heading */\<newline>'' @
      ''    .projects-heading {\<newline>'' @
      ''      font-family: \'Roboto Slab\', serif;  /* Serif font */\<newline>'' @
      ''      font-size: 1.4rem;               /* Heading size */\<newline>'' @
      ''      font-weight: 700;                /* Bold */\<newline>'' @
      ''      color: var(--text-color);        /* Text color */\<newline>'' @
      ''      margin-bottom: 1.5rem;           /* Space below heading */\<newline>'' @
      ''      padding-bottom: 0.4rem;          /* Padding above border */\<newline>'' @
      ''      border-bottom: 1px solid var(--border-color);  /* Underline border */\<newline>'' @
      ''    }\<newline>'' @
      ''\<newline>'' @
      ''    /* Individual project item */\<newline>'' @
      ''    .project-item {\<newline>'' @
      ''      margin-bottom: 2.5rem;           /* Space between projects */\<newline>'' @
      ''      padding-bottom: 2rem;            /* Padding above border */\<newline>'' @
      ''      border-bottom: 1px solid var(--border-color);  /* Bottom border separator */\<newline>'' @
      ''    }\<newline>'' @
      ''    \<newline>'' @
      ''    /* Remove border from last project */\<newline>'' @
      ''    .project-item:last-child {\<newline>'' @
      ''      border-bottom: none;             /* No border on last item */\<newline>'' @
      ''      margin-bottom: 0;                /* No bottom margin */\<newline>'' @
      ''      padding-bottom: 0;               /* No padding */\<newline>'' @
      ''    }\<newline>'' @
      ''\<newline>'' @
      ''    /* Project title */\<newline>'' @
      ''    .project-title {\<newline>'' @
      ''      font-family: \'Roboto Slab\', serif;  /* Serif font */\<newline>'' @
      ''      font-size: 1.15rem;              /* Slightly larger */\<newline>'' @
      ''      font-weight: 600;                /* Semi-bold */\<newline>'' @
      ''      color: #800020;                  /* Burgundy color */\<newline>'' @
      ''      margin-bottom: 1rem;             /* Space below title */\<newline>'' @
      ''      line-height: 1.4;                /* Line height */\<newline>'' @
      ''    }\<newline>'' @
      ''\<newline>'' @
      ''    /* Project content container (image + description) */\<newline>'' @
      ''    .project-content {\<newline>'' @
      ''      display: block;                  /* Block layout for float */\<newline>'' @
      ''    }\<newline>'' @
      ''\<newline>'' @
      ''    /* Project image container */\<newline>'' @
      ''    .project-image {\<newline>'' @
      ''      float: left;                     /* Float image to left */\<newline>'' @
      ''      width: 700px;                    /* Larger fixed width */\<newline>'' @
      ''      margin-right: 1.5rem;            /* Space between image and text */\<newline>'' @
      ''      margin-bottom: 0.75rem;          /* Space below image */\<newline>'' @
      ''      border-radius: 4px;              /* Rounded corners */\<newline>'' @
      ''      overflow: hidden;                /* Hide overflow */\<newline>'' @
      ''      border: 1px solid var(--border-color);  /* Border around image */\<newline>'' @
      ''    }\<newline>'' @
      ''    \<newline>'' @
      ''    /* Project image */\<newline>'' @
      ''    .project-image img {\<newline>'' @
      ''      width: 100%;                     /* Fill container width */\<newline>'' @
      ''      height: auto;                    /* Maintain aspect ratio */\<newline>'' @
      ''      display: block;                  /* Remove inline spacing */\<newline>'' @
      ''    }\<newline>'' @
      ''\<newline>'' @
      ''    /* Project description container */\<newline>'' @
      ''    .project-description {\<newline>'' @
      ''      /* No overflow hidden - allows text to wrap under floated image */\<newline>'' @
      ''    }\<newline>'' @
      ''\<newline>'' @
      ''    /* Project description paragraphs */\<newline>'' @
      ''    .project-description p {\<newline>'' @
      ''      color: var(--text-color);        /* Text color */\<newline>'' @
      ''      font-size: 0.95rem;              /* Slightly smaller */\<newline>'' @
      ''      line-height: 1.7;                /* Comfortable line height */\<newline>'' @
      ''      margin-bottom: 0.75rem;          /* Space between paragraphs */\<newline>'' @
      ''      text-align: justify;             /* Justify text */\<newline>'' @
      ''    }\<newline>'' @
      ''    \<newline>'' @
      ''    /* Remove margin from last paragraph */\<newline>'' @
      ''    .project-description p:last-child {\<newline>'' @
      ''      margin-bottom: 0;                /* No bottom margin */\<newline>'' @
      ''    }\<newline>'' @
      ''\<newline>'' @
      ''    /* Clear float after project content */\<newline>'' @
      ''    .project-content::after {\<newline>'' @
      ''      content: "";\<newline>'' @
      ''      display: table;\<newline>'' @
      ''      clear: both;\<newline>'' @
      ''    }\<newline>'' @
      ''\<newline>'' @
      ''    /* ============'' @
      ''============'' @
      ''============'' @
      ''========\<newline>'' @
      ''       RESPONSIVE STYLES FOR RESEARCH\<newline>'' @
      ''       ============'' @
      ''============'' @
      ''============'' @
      ''======== */\<newline>'' @
      ''    @media (max-width: 900px) {\<newline>'' @
      ''      /* Stack project content vertically on tablet/mobile */\<newline>'' @
      ''      .project-image {\<newline>'' @
      ''        float: none;                   /* Remove float */\<newline>'' @
      ''        width: 100%;                   /* Full width */\<newline>'' @
      ''        max-width: 520px;              /* Maximum width */\<newline>'' @
      ''        margin-right: 0;               /* Remove right margin */\<newline>'' @
      ''        margin-bottom: 1rem;           /* Space below */\<newline>'' @
      ''      }\<newline>'' @
      ''    }\<newline>''\<close>

definition research_page ::
  "html \<Rightarrow> string \<Rightarrow> html \<Rightarrow> html \<Rightarrow> html \<Rightarrow> html \<Rightarrow> html \<Rightarrow> string \<Rightarrow> html" where
  \<open>research_page head_html nav_brand nav_html sidebar_html interests_html projects_html
       footer_html js_code =
      ''<!DOCTYPE html>\<newline>'' @
      ''<html lang="en">\<newline>'' @
      head_html @
      ''\<newline>'' @
      ''<body>\<newline>'' @
      ''  <!-- Navigation Bar -->\<newline>'' @
      ''  <nav>\<newline>'' @
      ''    <div class="nav-container">\<newline>'' @
      ''      <!-- Brand/Logo link to home -->\<newline>'' @
      ''      <a href="index.html" class="nav-brand">'' @
      nav_brand @
      ''</a>\<newline>'' @
      ''      \<newline>'' @
      ''      <!-- Mobile hamburger menu button -->\<newline>'' @
      ''      <button class="nav-toggle" aria-label="Toggle navigation">\<newline>'' @
      ''        <i class="fas fa-bars"></i>\<newline>'' @
      ''      </button>\<newline>'' @
      ''      \<newline>'' @
      ''      <!-- Navigation links - research is active -->\<newline>'' @
      ''      <ul class="nav-links">\<newline>'' @
      ''        '' @
      nav_html @
      ''\<newline>'' @
      ''      </ul>\<newline>'' @
      ''      \<newline>'' @
      ''      <!-- Dark/light theme toggle button -->\<newline>'' @
      ''      <button class="theme-toggle" aria-label="Toggle dark mode">\<newline>'' @
      ''        <i class="fas fa-moon"></i>\<newline>'' @
      ''      </button>\<newline>'' @
      ''    </div>\<newline>'' @
      ''  </nav>\<newline>'' @
      ''\<newline>'' @
      ''  <!-- Two-Column Layout Container -->\<newline>'' @
      ''  <div class="page-wrapper">\<newline>'' @
      ''    <!-- Left Sidebar with Profile -->\<newline>'' @
      ''    '' @
      sidebar_html @
      ''\<newline>'' @
      ''\<newline>'' @
      ''    <!-- Main Content Area -->\<newline>'' @
      ''    <main class="main-content">\<newline>'' @
      ''      <!-- Research Interests Section -->\<newline>'' @
      ''      <div class="research-intro">\<newline>'' @
      ''        <h1>Research Interests</h1>\<newline>'' @
      ''        <p class="research-interests">'' @
      interests_html @
      ''</p>\<newline>'' @
      ''      </div>\<newline>'' @
      ''\<newline>'' @
      ''      <!-- Research Projects Section -->\<newline>'' @
      ''      <h2 class="projects-heading">Research Projects</h2>\<newline>'' @
      ''      '' @
      projects_html @
      ''\<newline>'' @
      ''    </main>\<newline>'' @
      ''  </div>\<newline>'' @
      ''\<newline>'' @
      ''  <!-- Page Footer -->\<newline>'' @
      ''  '' @
      footer_html @
      ''\<newline>'' @
      ''\<newline>'' @
      ''  <!-- JavaScript for Navigation and Theme Toggle -->\<newline>'' @
      ''  <script>'' @
      js_code @
      ''</script>\<newline>'' @
      ''</body>\<newline>'' @
      ''</html>''\<close>

text \<open>\<^verbatim>\<open>build_html(content, sidebar)\<close>. Neither the head nor the navigation is given the
  sidebar.\<close>

definition research_build_html :: "json \<Rightarrow> json \<Rightarrow> py_error + html" where
  \<open>research_build_html content sidebar =
     bnd (subscript content ''meta'') (\<lambda>meta.
     bnd (subscript meta ''title'') (\<lambda>title.
     bnd (subscript content ''meta'') (\<lambda>meta'.
     bnd (subscript meta' ''description'') (\<lambda>description.
     bnd (get_head_html title description JNull) (\<lambda>head_html0.
     bnd (Inr (str_replace ''</style>'' (get_research_css @
                                   ''</style>'') head_html0)) (\<lambda>head_html.
     bnd (subscript content ''interests'') (\<lambda>interests.
     bnd (generate_interests_html interests) (\<lambda>interests_html.
     bnd (subscript content ''projects'') (\<lambda>projects.
     bnd (generate_projects_html projects) (\<lambda>projects_html.
     bnd (get_nav_brand sidebar) (\<lambda>nav_brand.
     bnd (get_nav_html ''research'' JNull) (\<lambda>nav_html.
     bnd (get_sidebar_html sidebar) (\<lambda>sidebar_html.
     bnd (get_footer_html sidebar) (\<lambda>footer_html.
       Inr (research_page head_html (py_str nav_brand) nav_html sidebar_html interests_html
              projects_html footer_html get_js_code)))))))))))))))\<close>

section \<open>\<^verbatim>\<open>build_publications.py\<close>: the publications page\<close>

definition intro_link :: "json \<Rightarrow> py_error + html" where
  \<open>intro_link link =
     bnd (subscript link ''url'') (\<lambda>url.
     bnd (subscript link ''label'') (\<lambda>label.
       Inr (''<a href="'' @
            py_str url @
            ''" target="_blank" rel="noopener">['' @
            py_str label @
            '']</a>'')))\<close>

definition generate_intro_links :: "json \<Rightarrow> py_error + html" where
  "generate_intro_links links =
     bnd (py_iter links) (\<lambda>ls.
     bnd (mapM intro_link ls) (\<lambda>link_elements.
       Inr (str_join '' / '' link_elements)))"

definition paper_link :: "json \<Rightarrow> py_error + html" where
  \<open>paper_link link =
     bnd (subscript link ''url'') (\<lambda>url.
     bnd (subscript link ''label'') (\<lambda>label.
       Inr (''<a href="'' @
            py_str url @
            ''" class="paper-link" target="_blank" rel="noopener">['' @
            py_str label @
            '']</a>'')))\<close>

definition generate_paper_links :: "json \<Rightarrow> py_error + html" where
  "generate_paper_links links =
     bnd (py_iter links) (\<lambda>ls.
     bnd (mapM paper_link ls) (\<lambda>link_elements.
       Inr (str_join '' | '' link_elements)))"

text \<open>The two templates of \<^verbatim>\<open>generate_paper_html\<close>: with the thumbnail and without.\<close>

definition paper_template :: "string \<Rightarrow> string \<Rightarrow> string \<Rightarrow> string \<Rightarrow> html \<Rightarrow> html" where
  \<open>paper_template image_src title authors venue links_html =
      ''<div class="paper-item">\<newline>'' @
      ''          <div class="paper-image">\<newline>'' @
      ''            <img src="'' @
      image_src @
      ''" alt="'' @
      title @
      ''">\<newline>'' @
      ''          </div>\<newline>'' @
      ''          <div class="paper-content">\<newline>'' @
      ''            <h3 class="paper-title">'' @
      title @
      ''</h3>\<newline>'' @
      ''            <p class="paper-authors">'' @
      authors @
      ''</p>\<newline>'' @
      ''            <p class="paper-venue">'' @
      venue @
      ''</p>\<newline>'' @
      ''            <div class="paper-links">\<newline>'' @
      ''              '' @
      links_html @
      ''\<newline>'' @
      ''            </div>\<newline>'' @
      ''          </div>\<newline>'' @
      ''        </div>''\<close>

definition paper_template_no_image :: "string \<Rightarrow> string \<Rightarrow> string \<Rightarrow> html \<Rightarrow> html" where
  \<open>paper_template_no_image title authors venue links_html =
      ''<div class="paper-item no-image">\<newline>'' @
      ''          <div class="paper-content">\<newline>'' @
      ''            <h3 class="paper-title">'' @
      title @
      ''</h3>\<newline>'' @
      ''            <p class="paper-authors">'' @
      authors @
      ''</p>\<newline>'' @
      ''            <p class="paper-venue">'' @
      venue @
      ''</p>\<newline>'' @
      ''            <div class="paper-links">\<newline>'' @
      ''              '' @
      links_html @
      ''\<newline>'' @
      ''            </div>\<newline>'' @
      ''          </div>\<newline>'' @
      ''        </div>''\<close>

definition generate_paper_html :: "json \<Rightarrow> bool \<Rightarrow> py_error + html" where
  "generate_paper_html paper show_image =
     bnd (py_get paper ''authors'' (JStr '''')) (\<lambda>authors.
     bnd (py_get paper ''links'' (JArr [])) (\<lambda>links.
     bnd (generate_paper_links links) (\<lambda>links_html.
       if show_image then
         bnd (py_get paper ''image'' (JStr ''assets/img/pub_placeholder.png'')) (\<lambda>image.
         bnd (subscript paper ''title'') (\<lambda>title.
         bnd (subscript paper ''title'') (\<lambda>title'.
         bnd (subscript paper ''venue'') (\<lambda>venue.
           Inr (paper_template (py_str image) (py_str title) (py_str authors) (py_str venue)
                  links_html)))))
       else
         bnd (subscript paper ''title'') (\<lambda>title.
         bnd (subscript paper ''venue'') (\<lambda>venue.
           Inr (paper_template_no_image (py_str title) (py_str authors) (py_str venue)
                  links_html))))))"

definition generate_year_section :: "json \<Rightarrow> bool \<Rightarrow> py_error + html" where
  \<open>generate_year_section year_group show_image =
     bnd (py_get year_group ''year'' JNull) (\<lambda>year.
     bnd (subscript year_group ''papers'') (\<lambda>papers.
     bnd (py_iter papers) (\<lambda>ps.
     bnd (mapM (\<lambda>paper. generate_paper_html paper show_image) ps) (\<lambda>paper_htmls.
     bnd (Inr (str_join (''\<newline>'' @
                        ''        '') paper_htmls)) (\<lambda>papers_html.
       if truthy year then
         Inr (''<div class="year-section">\<newline>'' @
              ''        <h2 class="year-heading">'' @
              py_str year @
              ''</h2>\<newline>'' @
              ''        '' @
              papers_html @
              ''\<newline>'' @
              ''      </div>'')
       else
         Inr (''<div class="year-section no-year">\<newline>'' @
              ''        '' @
              papers_html @
              ''\<newline>'' @
              ''      </div>''))))))\<close>

definition generate_publications_html :: "json \<Rightarrow> py_error + html" where
  \<open>generate_publications_html publications =
     bnd (py_iter publications) (\<lambda>groups.
     bnd (mapM (\<lambda>year_group. generate_year_section year_group True) groups) (\<lambda>sections.
       Inr (str_join (''\<newline>'' @
                  ''      '') sections)))\<close>

definition generate_conference_abstracts_html :: "json \<Rightarrow> py_error + html" where
  \<open>generate_conference_abstracts_html abstracts =
     (if \<not> truthy abstracts then Inr ''''
      else
        bnd (py_iter abstracts) (\<lambda>groups.
        bnd (mapM (\<lambda>year_group. generate_year_section year_group False) groups) (\<lambda>sections.
          Inr (str_join (''\<newline>'' @
                     ''      '') sections))))\<close>

definition get_publications_css :: css where
  \<open>get_publications_css =
      ''\<newline>'' @
      ''    /* ============'' @
      ''============'' @
      ''============'' @
      ''========\<newline>'' @
      ''       PUBLICATIONS PAGE STYLES\<newline>'' @
      ''       Styles specific to the publications listing\<newline>'' @
      ''       ============'' @
      ''============'' @
      ''============'' @
      ''======== */\<newline>'' @
      ''    \<newline>'' @
      ''    /* Section divider for Conference Abstracts */\<newline>'' @
      ''    .section-divider {\<newline>'' @
      ''      margin-top: 0.75rem;               /* Space above */\<newline>'' @
      ''      margin-bottom: 0.3rem;             /* Space below */\<newline>'' @
      ''    }\<newline>'' @
      ''    \<newline>'' @
      ''    /* Section title (Conference Abstracts) */\<newline>'' @
      ''    .section-title {\<newline>'' @
      ''      font-family: \'Roboto Slab\', serif;  /* Serif font */\<newline>'' @
      ''      font-size: 1.3rem;                 /* Heading size */\<newline>'' @
      ''      font-weight: 700;                  /* Bold */\<newline>'' @
      ''      color: var(--text-color);          /* Text color */\<newline>'' @
      ''      margin-bottom: 0.15rem;            /* Space below */\<newline>'' @
      ''    }\<newline>'' @
      ''\<newline>'' @
      ''    /* Page introduction section */\<newline>'' @
      ''    .pub-intro {\<newline>'' @
      ''      margin-bottom: 0.75rem;          /* Space below intro */\<newline>'' @
      ''    }\<newline>'' @
      ''    \<newline>'' @
      ''    /* Introduction title */\<newline>'' @
      ''    .pub-intro h1 {\<newline>'' @
      ''      font-family: \'Roboto Slab\', serif;  /* Serif font */\<newline>'' @
      ''      font-size: 1.4rem;               /* Heading */\<newline>'' @
      ''      font-weight: 700;                /* Bold */\<newline>'' @
      ''      color: var(--text-color);        /* Text color */\<newline>'' @
      ''      margin-bottom: 0.2rem;           /* Space below */\<newline>'' @
      ''    }\<newline>'' @
      ''    \<newline>'' @
      ''    /* Introduction description and links */\<newline>'' @
      ''    .pub-intro p {\<newline>'' @
      ''      color: var(--text-color);        /* Text color */\<newline>'' @
      ''      font-size: 0.9rem;               /* Smaller */\<newline>'' @
      ''      margin-bottom: 0;                /* No bottom margin */\<newline>'' @
      ''    }\<newline>'' @
      ''    \<newline>'' @
      ''    .pub-intro a {\<newline>'' @
      ''      color: var(--text-color);        /* Link color */\<newline>'' @
      ''      font-weight: 500;                /* Medium weight */\<newline>'' @
      ''    }\<newline>'' @
      ''    \<newline>'' @
      ''    .pub-intro a:hover {\<newline>'' @
      ''      text-decoration: underline;      /* Underline on hover */\<newline>'' @
      ''    }\<newline>'' @
      ''\<newline>'' @
      ''    /* Year section container */\<newline>'' @
      ''    .year-section {\<newline>'' @
      ''      margin-bottom: 1rem;             /* Space between year sections */\<newline>'' @
      ''    }\<newline>'' @
      ''    \<newline>'' @
      ''    /* Year heading */\<newline>'' @
      ''    .year-heading {\<newline>'' @
      ''      font-family: \'Roboto Slab\', serif;  /* Serif font */\<newline>'' @
      ''      font-size: 1.2rem;               /* Heading size */\<newline>'' @
      ''      font-weight: 700;                /* Bold */\<newline>'' @
      ''      color: var(--text-color);        /* Text color */\<newline>'' @
      ''      margin-bottom: 0.2rem;           /* Space from ruler to content */\<newline>'' @
      ''      padding-bottom: 0.1rem;          /* Space from text to ruler */\<newline>'' @
      ''      border-bottom: 1px solid var(--border-color);  /* Underline border */\<newline>'' @
      ''    }\<newline>'' @
      ''    \<newline>'' @
      ''    /* Year section without year heading */\<newline>'' @
      ''    .year-section.no-year {\<newline>'' @
      ''      margin-top: 0.5rem;              /* Slight top margin */\<newline>'' @
      ''    }\<newline>'' @
      ''\<newline>'' @
      ''    /* Individual paper item */\<newline>'' @
      ''    .paper-item {\<newline>'' @
      ''      display: flex;                   /* Flexbox for image + content layout */\<newline>'' @
      ''      gap: 0.75rem;                    /* Space between image and content */\<newline>'' @
      ''      padding: 0.4rem 0;               /* Vertical padding */\<newline>'' @
      ''    }\<newline>'' @
      ''    \<newline>'' @
      ''    /* Paper item without image */\<newline>'' @
      ''    .paper-item.no-image {\<newline>'' @
      ''      gap: 0;                          /* No gap needed */\<newline>'' @
      ''      padding: 0.3rem 0;               /* Slightly less padding for abstracts */\<newline>'' @
      ''    }\<newline>'' @
      ''    \<newline>'' @
      ''    /* Last paper in section */\<newline>'' @
      ''    .paper-item:last-child {\<newline>'' @
      ''      padding-bottom: 0;               /* No padding on last item */\<newline>'' @
      ''    }\<newline>'' @
      ''\<newline>'' @
      ''    /* Paper thumbnail image container */\<newline>'' @
      ''    .paper-image {\<newline>'' @
      ''      width: 100px;                    /* Fixed width for thumbnail */\<newline>'' @
      ''      height: 65px;                    /* Fixed height for thumbnail */\<newline>'' @
      ''      flex-shrink: 0;                  /* Prevent shrinking */\<newline>'' @
      ''      overflow: hidden;                /* Hide overflow */\<newline>'' @
      ''      border-radius: 4px;              /* Rounded corners */\<newline>'' @
      ''      border: 1px solid var(--border-color);  /* Border around image */\<newline>'' @
      ''      background: var(--bg-color);     /* Background color */\<newline>'' @
      ''    }\<newline>'' @
      ''    \<newline>'' @
      ''    /* Paper thumbnail image */\<newline>'' @
      ''    .paper-image img {\<newline>'' @
      ''      width: 100%;                     /* Fill container width */\<newline>'' @
      ''      height: 100%;                    /* Fill container height */\<newline>'' @
      ''      object-fit: cover;               /* Cover entire area */\<newline>'' @
      ''    }\<newline>'' @
      ''\<newline>'' @
      ''    /* Paper content container */\<newline>'' @
      ''    .paper-content {\<newline>'' @
      ''      flex: 1;                         /* Fill remaining space */\<newline>'' @
      ''      min-width: 0;                    /* Allow text truncation */\<newline>'' @
      ''    }\<newline>'' @
      ''\<newline>'' @
      ''    /* Reset paragraph styles inside paper content */\<newline>'' @
      ''    .paper-content p {\<newline>'' @
      ''      margin-bottom: 0;                /* Override main-content p margins */\<newline>'' @
      ''      text-align: left;                /* Left align, not justify */\<newline>'' @
      ''    }\<newline>'' @
      ''\<newline>'' @
      ''    /* Paper title */\<newline>'' @
      ''    .paper-content .paper-title {\<newline>'' @
      ''      font-family: \'Roboto Slab\', serif;  /* Serif font */\<newline>'' @
      ''      font-size: 0.95rem;              /* Slightly smaller */\<newline>'' @
      ''      font-weight: 600;                /* Semi-bold */\<newline>'' @
      ''      color: var(--accent-color);      /* Accent color from theme */\<newline>'' @
      ''      margin-bottom: 0;                /* No space below */\<newline>'' @
      ''      line-height: 1.35;               /* Line height */\<newline>'' @
      ''    }\<newline>'' @
      ''\<newline>'' @
      ''    /* Paper authors */\<newline>'' @
      ''    .paper-content .paper-authors {\<newline>'' @
      ''      font-size: 0.8rem;               /* Smaller font */\<newline>'' @
      ''      color: var(--text-color);        /* Text color */\<newline>'' @
      ''      margin-bottom: 0;                /* No space below */\<newline>'' @
      ''      line-height: 1.35;               /* Line height */\<newline>'' @
      ''    }\<newline>'' @
      ''\<newline>'' @
      ''    /* Paper venue (journal/conference) */\<newline>'' @
      ''    .paper-content .paper-venue {\<newline>'' @
      ''      font-size: 0.8rem;               /* Smaller font */\<newline>'' @
      ''      color: var(--text-color);        /* Muted color */\<newline>'' @
      ''      font-style: italic;              /* Italic for venue */\<newline>'' @
      ''      margin-bottom: 0;                /* No space below */\<newline>'' @
      ''    }\<newline>'' @
      ''\<newline>'' @
      ''    /* Paper action links container */\<newline>'' @
      ''    .paper-links {\<newline>'' @
      ''      font-size: 0.75rem;              /* Small font for links */\<newline>'' @
      ''    }\<newline>'' @
      ''\<newline>'' @
      ''    /* Individual paper link */\<newline>'' @
      ''    .paper-link {\<newline>'' @
      ''      color: var(--action-link-color); /* Action link color from theme */\<newline>'' @
      ''      margin-right: 0.25rem;           /* Space between links */\<newline>'' @
      ''    }\<newline>'' @
      ''    \<newline>'' @
      ''    .paper-link:hover {\<newline>'' @
      ''      color: var(--action-link-hover); /* Action link hover from theme */\<newline>'' @
      ''      text-decoration: underline;      /* Underline on hover */\<newline>'' @
      ''    }\<newline>'' @
      ''\<newline>'' @
      ''    /* ============'' @
      ''============'' @
      ''============'' @
      ''========\<newline>'' @
      ''       RESPONSIVE STYLES FOR PUBLICATIONS\<newline>'' @
      ''       ============'' @
      ''============'' @
      ''============'' @
      ''======== */\<newline>'' @
      ''    @media (max-width: 600px) {\<newline>'' @
      ''      /* Stack paper items vertically on mobile */\<newline>'' @
      ''      .paper-item {\<newline>'' @
      ''        flex-direction: column;        /* Stack vertically */\<newline>'' @
      ''      }\<newline>'' @
      ''      \<newline>'' @
      ''      /* Full width image on mobile */\<newline>'' @
      ''      .paper-image {\<newline>'' @
      ''        width: 100%;                   /* Full width */\<newline>'' @
      ''        height: 150px;                 /* Taller height */\<newline>'' @
      ''      }\<newline>'' @
      ''    }\<newline>''\<close>

text \<open>The heading block that precedes the conference abstracts.\<close>

definition conference_abstracts_block :: "html \<Rightarrow> html" where
  \<open>conference_abstracts_block abstracts_html =
      ''\<newline>'' @
      ''      <!-- Conference Abstracts Section -->\<newline>'' @
      ''      <div class="section-divider">\<newline>'' @
      ''        <h1 class="section-title">Selected Conference Abstracts</h1>\<newline>'' @
      ''      </div>\<newline>'' @
      ''      '' @
      abstracts_html\<close>

definition publications_page ::
  "html \<Rightarrow> string \<Rightarrow> html \<Rightarrow> html \<Rightarrow> string \<Rightarrow> string \<Rightarrow> html \<Rightarrow> html \<Rightarrow> html \<Rightarrow> html \<Rightarrow> string \<Rightarrow> html" where
  \<open>publications_page head_html nav_brand nav_html sidebar_html intro_title intro_description
       intro_links publications_html conference_abstracts_html footer_html js_code =
      ''<!DOCTYPE html>\<newline>'' @
      ''<html lang="en">\<newline>'' @
      head_html @
      ''\<newline>'' @
      ''<body>\<newline>'' @
      ''  <!-- Navigation Bar -->\<newline>'' @
      ''  <nav>\<newline>'' @
      ''    <div class="nav-container">\<newline>'' @
      ''      <!-- Brand/Logo link to home -->\<newline>'' @
      ''      <a href="index.html" class="nav-brand">'' @
      nav_brand @
      ''</a>\<newline>'' @
      ''      \<newline>'' @
      ''      <!-- Mobile hamburger menu button -->\<newline>'' @
      ''      <button class="nav-toggle" aria-label="Toggle navigation">\<newline>'' @
      ''        <i class="fas fa-bars"></i>\<newline>'' @
      ''      </button>\<newline>'' @
      ''      \<newline>'' @
      ''      <!-- Navigation links - publications is active -->\<newline>'' @
      ''      <ul class="nav-links">\<newline>'' @
      ''        '' @
      nav_html @
      ''\<newline>'' @
      ''      </ul>\<newline>'' @
      ''      \<newline>'' @
      ''      <!-- Dark/light theme toggle button -->\<newline>'' @
      ''      <button class="theme-toggle" aria-label="Toggle dark mode">\<newline>'' @
      ''        <i class="fas fa-moon"></i>\<newline>'' @
      ''      </button>\<newline>'' @
      ''    </div>\<newline>'' @
      ''  </nav>\<newline>'' @
      ''\<newline>'' @
      ''  <!-- Two-Column Layout Container -->\<newline>'' @
      ''  <div class="page-wrapper">\<newline>'' @
      ''    <!-- Left Sidebar with Profile -->\<newline>'' @
      ''    '' @
      sidebar_html @
      ''\<newline>'' @
      ''\<newline>'' @
      ''    <!-- Main Content Area -->\<newline>'' @
      ''    <main class="main-content">\<newline>'' @
      ''      <!-- Introduction Section -->\<newline>'' @
      ''      <div class="pub-intro">\<newline>'' @
      ''        <h1>'' @
      intro_title @
      ''</h1>\<newline>'' @
      ''        <p>'' @
      intro_description @
      '' '' @
      intro_links @
      ''</p>\<newline>'' @
      ''      </div>\<newline>'' @
      ''\<newline>'' @
      ''      <!-- Publications by Year -->\<newline>'' @
      ''      '' @
      publications_html @
      ''\<newline>'' @
      ''      '' @
      conference_abstracts_html @
      ''\<newline>'' @
      ''    </main>\<newline>'' @
      ''  </div>\<newline>'' @
      ''\<newline>'' @
      ''  <!-- Page Footer -->\<newline>'' @
      ''  '' @
      footer_html @
      ''\<newline>'' @
      ''\<newline>'' @
      ''  <!-- JavaScript for Navigation and Theme Toggle -->\<newline>'' @
      ''  <script>'' @
      js_code @
      ''</script>\<newline>'' @
      ''</body>\<newline>'' @
      ''</html>''\<close>

text \<open>\<^verbatim>\<open>build_html(content, sidebar)\<close>. The head is given the sidebar, the navigation is
  not.\<close>

definition publications_build_html :: "json \<Rightarrow> json \<Rightarrow> py_error + html" where
  \<open>publications_build_html content sidebar =
     bnd (subscript content ''meta'') (\<lambda>meta.
     bnd (subscript meta ''title'') (\<lambda>title.
     bnd (subscript content ''meta'') (\<lambda>meta'.
     bnd (subscript meta' ''description'') (\<lambda>description.
     bnd (get_head_html title description sidebar) (\<lambda>head_html0.
     bnd (Inr (str_replace ''</style>'' (get_publications_css @
                                   ''</style>'') head_html0)) (\<lambda>head_html.
     bnd (subscript content ''intro'') (\<lambda>intro.
     bnd (subscript intro ''links'') (\<lambda>links.
     bnd (generate_intro_links links) (\<lambda>intro_links.
     bnd (subscript content ''publications'') (\<lambda>publications.
     bnd (generate_publications_html publications) (\<lambda>publications_html.
     bnd (py_get content ''conference_abstracts'' (JArr [])) (\<lambda>conference_abstracts.
     bnd (if truthy conference_abstracts then
            bnd (generate_conference_abstracts_html conference_abstracts) (\<lambda>abstracts_html.
              Inr (conference_abstracts_block abstracts_html))
          else Inr '''') (\<lambda>conference_abstracts_html.
     bnd (get_nav_brand sidebar) (\<lambda>nav_brand.
     bnd (get_nav_html ''publications'' JNull) (\<lambda>nav_html.
     bnd (get_sidebar_html sidebar) (\<lambda>sidebar_html.
     bnd (subscript content ''intro'') (\<lambda>intro'.
     bnd (subscript intro' ''title'') (\<lambda>intro_title.
     bnd (subscript content ''intro'') (\<lambda>intro''.
     bnd (subscript intro'' ''description'') (\<lambda>intro_description.
     bnd (get_footer_html sidebar) (\<lambda>footer_html.
       Inr (publications_page head_html (py_str nav_brand) nav_html sidebar_html
              (py_str intro_title) (py_str intro_description) intro_links publications_html
              conference_abstracts_html footer_html get_js_code))))))))))))))))))))))\<close>

section \<open>\<^verbatim>\<open>build_teaching.py\<close>: the teaching page\<close>

definition course_template :: "string \<Rightarrow> string \<Rightarrow> string \<Rightarrow> html \<Rightarrow> html" where
  \<open>course_template code name semesters host_html =
      ''<li class="course-list-item">\<newline>'' @
      ''            <span class="course-code">'' @
      code @
      ''</span>\<newline>'' @
      ''            <span class="course-name">'' @
      name @
      ''</span>\<newline>'' @
      ''            <span class="course-semesters">('' @
      semesters @
      '')</span>'' @
      host_html @
      ''\<newline>'' @
      ''          </li>''\<close>

definition generate_course_html :: "json \<Rightarrow> py_error + html" where
  \<open>generate_course_html course =
     bnd (subscript course ''semesters'') (\<lambda>semesters_list.
     bnd (py_join '', '' semesters_list) (\<lambda>semesters.
     bnd (py_in ''host'' course) (\<lambda>has_host.
     bnd (if has_host then bnd (subscript course ''host'') (\<lambda>host. Inr (truthy host)) else Inr False) (\<lambda>show_host.
     bnd (if show_host then
            bnd (subscript course ''host'') (\<lambda>host.
              Inr ('' <span class="course-host">[Host: '' @
                   py_str host @
                   '']</span>''))
          else Inr '''') (\<lambda>host_html.
     bnd (subscript course ''code'') (\<lambda>code.
     bnd (subscript course ''name'') (\<lambda>name.
       Inr (course_template (py_str code) (py_str name) semesters host_html))))))))\<close>

definition role_section_template ::
  "html \<Rightarrow> string \<Rightarrow> string \<Rightarrow> html \<Rightarrow> string \<Rightarrow> string \<Rightarrow> string \<Rightarrow> html" where
  \<open>role_section_template courses_html description role department_html institution location period =
      ''<div class="role-section">\<newline>'' @
      ''        <ul class="course-list">\<newline>'' @
      ''          '' @
      courses_html @
      ''\<newline>'' @
      ''        </ul>\<newline>'' @
      ''        <p class="role-description">'' @
      description @
      ''</p>\<newline>'' @
      ''        <div class="role-meta">\<newline>'' @
      ''          <span class="role-title">'' @
      role @
      ''</span>, \<newline>'' @
      ''          '' @
      department_html @
      ''<span class="role-institution">'' @
      institution @
      ''</span>, \<newline>'' @
      ''          <span class="role-location">'' @
      location @
      ''</span>\<newline>'' @
      ''          <span class="role-period">('' @
      period @
      '')</span>\<newline>'' @
      ''        </div>\<newline>'' @
      ''      </div>''\<close>

definition generate_role_section_html :: "json \<Rightarrow> py_error + html" where
  \<open>generate_role_section_html role_group =
     bnd (subscript role_group ''role'') (\<lambda>role.
     bnd (subscript role_group ''institution'') (\<lambda>institution.
     bnd (py_get role_group ''department'' (JStr '''')) (\<lambda>department.
     bnd (subscript role_group ''location'') (\<lambda>location.
     bnd (subscript role_group ''period'') (\<lambda>period.
     bnd (subscript role_group ''description'') (\<lambda>description.
     bnd (subscript role_group ''courses_list'') (\<lambda>courses_list.
     bnd (py_iter courses_list) (\<lambda>courses.
     bnd (mapM generate_course_html courses) (\<lambda>course_htmls.
     bnd (Inr (str_join (''\<newline>'' @
                        ''          '') course_htmls)) (\<lambda>courses_html.
     bnd (Inr (if truthy department
               then ''<span class="role-department">'' @
                    py_str department @
                    ''</span>, ''
               else '''')) (\<lambda>department_html.
       Inr (role_section_template courses_html (py_str description) (py_str role) department_html
              (py_str institution) (py_str location) (py_str period)))))))))))))\<close>

definition generate_courses_html :: "json \<Rightarrow> py_error + html" where
  \<open>generate_courses_html courses =
     bnd (py_iter courses) (\<lambda>role_groups.
     bnd (mapM generate_role_section_html role_groups) (\<lambda>sections.
       Inr (str_join (''\<newline>'' @
                  ''      '') sections)))\<close>

definition generate_student_html :: "json \<Rightarrow> py_error + html" where
  \<open>generate_student_html student =
     bnd (subscript student ''name'') (\<lambda>name.
     bnd (subscript student ''program'') (\<lambda>program.
     bnd (subscript student ''period'') (\<lambda>period.
     bnd (subscript student ''institution'') (\<lambda>institution.
       Inr (''<div class="student-item">\<newline>'' @
            ''            <div class="student-name">'' @
            py_str name @
            ''</div>\<newline>'' @
            ''            <div class="student-program">'' @
            py_str program @
            '' ('' @
            py_str period @
            '')</div>\<newline>'' @
            ''            <div class="student-institution">'' @
            py_str institution @
            ''</div>\<newline>'' @
            ''          </div>'')))))\<close>

definition generate_mentoring_category_html :: "json \<Rightarrow> py_error + html" where
  \<open>generate_mentoring_category_html category =
     bnd (subscript category ''type'') (\<lambda>category_type.
     bnd (subscript category ''students'') (\<lambda>students.
     bnd (py_iter students) (\<lambda>ss.
     bnd (mapM generate_student_html ss) (\<lambda>student_htmls.
     bnd (Inr (str_join (''\<newline>'' @
                        ''          '') student_htmls)) (\<lambda>students_html.
       Inr (''<div class="mentoring-category">\<newline>'' @
            ''          <h4 class="category-heading">'' @
            py_str category_type @
            ''</h4>\<newline>'' @
            ''          '' @
            students_html @
            ''\<newline>'' @
            ''        </div>''))))))\<close>

definition generate_mentoring_html :: "json \<Rightarrow> py_error + html" where
  \<open>generate_mentoring_html mentoring =
     bnd (py_iter mentoring) (\<lambda>cs.
     bnd (mapM generate_mentoring_category_html cs) (\<lambda>categories.
       Inr (str_join (''\<newline>'' @
                  ''        '') categories)))\<close>

definition get_teaching_css :: css where
  \<open>get_teaching_css =
      ''\<newline>'' @
      ''    /* ============'' @
      ''============'' @
      ''============'' @
      ''========\<newline>'' @
      ''       TEACHING PAGE STYLES\<newline>'' @
      ''       Styles specific to the teaching page\<newline>'' @
      ''       ============'' @
      ''============'' @
      ''============'' @
      ''======== */\<newline>'' @
      ''    \<newline>'' @
      ''    /* Section headings */\<newline>'' @
      ''    .section-heading {\<newline>'' @
      ''      font-family: \'Roboto Slab\', serif;  /* Serif font */\<newline>'' @
      ''      font-size: 1.4rem;               /* Heading size */\<newline>'' @
      ''      font-weight: 700;                /* Bold */\<newline>'' @
      ''      color: var(--text-color);        /* Text color */\<newline>'' @
      ''      margin-bottom: 0.6rem;           /* Reduced space below heading */\<newline>'' @
      ''      padding-bottom: 0.4rem;          /* Padding above border */\<newline>'' @
      ''      border-bottom: 1px solid var(--border-color);  /* Underline border */\<newline>'' @
      ''    }\<newline>'' @
      ''\<newline>'' @
      ''    /* Courses section */\<newline>'' @
      ''    .courses-section {\<newline>'' @
      ''      margin-bottom: 2rem;             /* Space below section */\<newline>'' @
      ''    }\<newline>'' @
      ''\<newline>'' @
      ''    /* Role section (TA, Lecturer, etc.) */\<newline>'' @
      ''    .role-section {\<newline>'' @
      ''      margin-bottom: 0.75rem;          /* Space between role sections */\<newline>'' @
      ''      padding-bottom: 0.75rem;         /* Padding above border */\<newline>'' @
      ''      border-bottom: 1px solid var(--border-color);  /* Bottom border */\<newline>'' @
      ''    }\<newline>'' @
      ''    \<newline>'' @
      ''    /* Remove border from last role section */\<newline>'' @
      ''    .role-section:last-child {\<newline>'' @
      ''      border-bottom: none;             /* No border on last item */\<newline>'' @
      ''      padding-bottom: 0;               /* No padding */\<newline>'' @
      ''    }\<newline>'' @
      ''\<newline>'' @
      ''    /* Course list - first element */\<newline>'' @
      ''    .course-list {\<newline>'' @
      ''      list-style: none;                /* Remove default bullets */\<newline>'' @
      ''      padding-left: 0;                 /* Remove left padding */\<newline>'' @
      ''      margin: 0;                       /* No margin */\<newline>'' @
      ''    }\<newline>'' @
      ''\<newline>'' @
      ''    /* Course list item */\<newline>'' @
      ''    .course-list-item {\<newline>'' @
      ''      padding: 0.05rem 0;              /* Minimal vertical padding */\<newline>'' @
      ''      padding-left: 1rem;              /* Indent */\<newline>'' @
      ''      position: relative;              /* For bullet positioning */\<newline>'' @
      ''      font-size: 0.9rem;               /* Font size */\<newline>'' @
      ''    }\<newline>'' @
      ''    \<newline>'' @
      ''    /* Custom bullet */\<newline>'' @
      ''    .course-list-item::before {\<newline>'' @
      ''      content: "'' @
      [CHR 0xE2, CHR 0x80, CHR 0xA2] @
      ''";                    /* Bullet */\<newline>'' @
      ''      position: absolute;              /* Position absolutely */\<newline>'' @
      ''      left: 0;                         /* At left edge */\<newline>'' @
      ''      color: var(--text-color);        /* Text color */\<newline>'' @
      ''    }\<newline>'' @
      ''    \<newline>'' @
      ''    /* Course code */\<newline>'' @
      ''    .course-code {\<newline>'' @
      ''      font-weight: 600;                /* Semi-bold */\<newline>'' @
      ''      color: var(--text-color);        /* Text color */\<newline>'' @
      ''      margin-right: 0.25rem;           /* Space after code */\<newline>'' @
      ''    }\<newline>'' @
      ''    \<newline>'' @
      ''    /* Course name */\<newline>'' @
      ''    .course-name {\<newline>'' @
      ''      color: var(--text-color);        /* Text color */\<newline>'' @
      ''    }\<newline>'' @
      ''\<newline>'' @
      ''    /* Course semesters */\<newline>'' @
      ''    .course-semesters {\<newline>'' @
      ''      color: var(--text-color);        /* Text color */\<newline>'' @
      ''      font-size: 0.85rem;              /* Smaller font */\<newline>'' @
      ''      margin-left: 0.25rem;            /* Space before */\<newline>'' @
      ''    }\<newline>'' @
      ''\<newline>'' @
      ''    /* Course host (for guest lectures) */\<newline>'' @
      ''    .course-host {\<newline>'' @
      ''      color: var(--text-muted);        /* Muted color */\<newline>'' @
      ''      font-size: 0.85rem;              /* Smaller font */\<newline>'' @
      ''      margin-left: 0.25rem;            /* Space before */\<newline>'' @
      ''      font-style: italic;              /* Italic */\<newline>'' @
      ''    }\<newline>'' @
      ''\<newline>'' @
      ''    /* Role description - second element */\<newline>'' @
      ''    .role-description {\<newline>'' @
      ''      font-size: 0.9rem;               /* Smaller font */\<newline>'' @
      ''      color: var(--text-color);        /* Text color */\<newline>'' @
      ''      line-height: 1.6;                /* Line height */\<newline>'' @
      ''      margin: 0.2rem 0;                /* Small vertical margin */\<newline>'' @
      ''    }\<newline>'' @
      ''\<newline>'' @
      ''    /* Role meta - last element (role, institution, location, period) */\<newline>'' @
      ''    .role-meta {\<newline>'' @
      ''      font-size: 0.85rem;              /* Smaller font */\<newline>'' @
      ''      color: var(--text-muted);        /* Muted color */\<newline>'' @
      ''      margin-top: 0.15rem;             /* Small space above */\<newline>'' @
      ''    }\<newline>'' @
      ''    \<newline>'' @
      ''    /* Role title (Teaching Assistant, Lecturer, etc.) */\<newline>'' @
      ''    .role-title {\<newline>'' @
      ''      font-weight: 400;                /* Normal weight - no bold */\<newline>'' @
      ''      color: var(--text-color);        /* Black color */\<newline>'' @
      ''    }\<newline>'' @
      ''    \<newline>'' @
      ''    /* Role institution */\<newline>'' @
      ''    .role-institution {\<newline>'' @
      ''      font-weight: 400;                /* Normal weight */\<newline>'' @
      ''    }\<newline>'' @
      ''    \<newline>'' @
      ''    /* Role department */\<newline>'' @
      ''    .role-department {\<newline>'' @
      ''      font-weight: 400;                /* Normal weight */\<newline>'' @
      ''    }\<newline>'' @
      ''    \<newline>'' @
      ''    /* Role period */\<newline>'' @
      ''    .role-period {\<newline>'' @
      ''      color: var(--text-muted);        /* Muted color */\<newline>'' @
      ''    }\<newline>'' @
      ''\<newline>'' @
      ''    /* Mentoring section */\<newline>'' @
      ''    .mentoring-section {\<newline>'' @
      ''      margin-bottom: 2rem;             /* Space below section */\<newline>'' @
      ''    }\<newline>'' @
      ''\<newline>'' @
      ''    /* Mentoring category */\<newline>'' @
      ''    .mentoring-category {\<newline>'' @
      ''      margin-bottom: 0.75rem;          /* Space between categories */\<newline>'' @
      ''    }\<newline>'' @
      ''    \<newline>'' @
      ''    /* Category heading */\<newline>'' @
      ''    .category-heading {\<newline>'' @
      ''      font-family: \'Roboto Slab\', serif;  /* Serif font */\<newline>'' @
      ''      font-size: 1rem;                 /* Standard size */\<newline>'' @
      ''      font-weight: 600;                /* Semi-bold */\<newline>'' @
      ''      color: var(--accent-color);      /* Accent color from theme */\<newline>'' @
      ''      margin-bottom: 0.5rem;           /* Space below heading */\<newline>'' @
      ''    }\<newline>'' @
      ''\<newline>'' @
      ''    /* Individual student item */\<newline>'' @
      ''    .student-item {\<newline>'' @
      ''      margin-bottom: 0.75rem;          /* Space between students */\<newline>'' @
      ''      padding-left: 1rem;              /* Indent */\<newline>'' @
      ''      border-left: 2px solid var(--border-color);  /* Left border */\<newline>'' @
      ''    }\<newline>'' @
      ''    \<newline>'' @
      ''    /* Student name */\<newline>'' @
      ''    .student-name {\<newline>'' @
      ''      font-weight: 600;                /* Semi-bold */\<newline>'' @
      ''      color: var(--text-color);        /* Text color */\<newline>'' @
      ''    }\<newline>'' @
      ''    \<newline>'' @
      ''    /* Student program */\<newline>'' @
      ''    .student-program {\<newline>'' @
      ''      font-size: 0.85rem;              /* Smaller font */\<newline>'' @
      ''      color: var(--text-color);        /* Text color */\<newline>'' @
      ''    }\<newline>'' @
      ''    \<newline>'' @
      ''    /* Student institution */\<newline>'' @
      ''    .student-institution {\<newline>'' @
      ''      font-size: 0.85rem;              /* Smaller font */\<newline>'' @
      ''      color: var(--text-color);        /* Muted color */\<newline>'' @
      ''      font-style: italic;              /* Italic */\<newline>'' @
      ''    }\<newline>''\<close>

definition teaching_page ::
  "html \<Rightarrow> string \<Rightarrow> html \<Rightarrow> html \<Rightarrow> html \<Rightarrow> html \<Rightarrow> html \<Rightarrow> string \<Rightarrow> html" where
  \<open>teaching_page head_html nav_brand nav_html sidebar_html courses_html mentoring_html
       footer_html js_code =
      ''<!DOCTYPE html>\<newline>'' @
      ''<html lang="en">\<newline>'' @
      head_html @
      ''\<newline>'' @
      ''<body>\<newline>'' @
      ''  <!-- Navigation Bar -->\<newline>'' @
      ''  <nav>\<newline>'' @
      ''    <div class="nav-container">\<newline>'' @
      ''      <!-- Brand/Logo link to home -->\<newline>'' @
      ''      <a href="index.html" class="nav-brand">'' @
      nav_brand @
      ''</a>\<newline>'' @
      ''      \<newline>'' @
      ''      <!-- Mobile hamburger menu button -->\<newline>'' @
      ''      <button class="nav-toggle" aria-label="Toggle navigation">\<newline>'' @
      ''        <i class="fas fa-bars"></i>\<newline>'' @
      ''      </button>\<newline>'' @
      ''      \<newline>'' @
      ''      <!-- Navigation links - teaching is active -->\<newline>'' @
      ''      <ul class="nav-links">\<newline>'' @
      ''        '' @
      nav_html @
      ''\<newline>'' @
      ''      </ul>\<newline>'' @
      ''      \<newline>'' @
      ''      <!-- Dark/light theme toggle button -->\<newline>'' @
      ''      <button class="theme-toggle" aria-label="Toggle dark mode">\<newline>'' @
      ''        <i class="fas fa-moon"></i>\<newline>'' @
      ''      </button>\<newline>'' @
      ''    </div>\<newline>'' @
      ''  </nav>\<newline>'' @
      ''\<newline>'' @
      ''  <!-- Two-Column Layout Container -->\<newline>'' @
      ''  <div class="page-wrapper">\<newline>'' @
      ''    <!-- Left Sidebar with Profile -->\<newline>'' @
      ''    '' @
      sidebar_html @
      ''\<newline>'' @
      ''\<newline>'' @
      ''    <!-- Main Content Area -->\<newline>'' @
      ''    <main class="main-content">\<newline>'' @
      ''      <!-- Courses Section -->\<newline>'' @
      ''      <section class="courses-section">\<newline>'' @
      ''        <h2 class="section-heading">Courses</h2>\<newline>'' @
      ''        '' @
      courses_html @
      ''\<newline>'' @
      ''      </section>\<newline>'' @
      ''\<newline>'' @
      ''      <!-- Mentoring Section -->\<newline>'' @
      ''      <section class="mentoring-section">\<newline>'' @
      ''        <h2 class="section-heading">Mentoring</h2>\<newline>'' @
      ''        '' @
      mentoring_html @
      ''\<newline>'' @
      ''      </section>\<newline>'' @
      ''    </main>\<newline>'' @
      ''  </div>\<newline>'' @
      ''\<newline>'' @
      ''  <!-- Page Footer -->\<newline>'' @
      ''  '' @
      footer_html @
      ''\<newline>'' @
      ''\<newline>'' @
      ''  <!-- JavaScript for Navigation and Theme Toggle -->\<newline>'' @
      ''  <script>'' @
      js_code @
      ''</script>\<newline>'' @
      ''</body>\<newline>'' @
      ''</html>''\<close>

text \<open>\<^verbatim>\<open>build_html(content, sidebar)\<close>. The head is given the sidebar, the navigation is
  not.\<close>

definition teaching_build_html :: "json \<Rightarrow> json \<Rightarrow> py_error + html" where
  \<open>teaching_build_html content sidebar =
     bnd (subscript content ''meta'') (\<lambda>meta.
     bnd (subscript meta ''title'') (\<lambda>title.
     bnd (subscript content ''meta'') (\<lambda>meta'.
     bnd (subscript meta' ''description'') (\<lambda>description.
     bnd (get_head_html title description sidebar) (\<lambda>head_html0.
     bnd (Inr (str_replace ''</style>'' (get_teaching_css @
                                   ''</style>'') head_html0)) (\<lambda>head_html.
     bnd (subscript content ''courses'') (\<lambda>courses.
     bnd (generate_courses_html courses) (\<lambda>courses_html.
     bnd (subscript content ''mentoring'') (\<lambda>mentoring.
     bnd (generate_mentoring_html mentoring) (\<lambda>mentoring_html.
     bnd (get_nav_brand sidebar) (\<lambda>nav_brand.
     bnd (get_nav_html ''teaching'' JNull) (\<lambda>nav_html.
     bnd (get_sidebar_html sidebar) (\<lambda>sidebar_html.
     bnd (get_footer_html sidebar) (\<lambda>footer_html.
       Inr (teaching_page head_html (py_str nav_brand) nav_html sidebar_html courses_html
              mentoring_html footer_html get_js_code)))))))))))))))\<close>

section \<open>Example documents\<close>

text \<open>Small documents that every builder accepts; the sidebar declares a CV file and a
  light accent colour of its own.\<close>

definition example_sidebar :: json where
  "example_sidebar =
     JObj [(''nav_brand'', JStr ''Ada L''),
           (''profile'', JObj [(''name'', JStr ''Ada'')]),
           (''footer'', JObj [(''copyright_year'', JInt 2024), (''copyright_name'', JStr ''Ada'')]),
           (''cv_file'', JStr ''files/my_cv.pdf''),
           (''theme'', JObj [(''light'', JObj [(''accent_color'', JStr ''#FF0000'')])])]"

definition example_meta :: json where
  "example_meta = JObj [(''title'', JStr ''T''), (''description'', JStr ''D'')]"

definition example_index_content :: json where
  "example_index_content =
     JObj [(''meta'', example_meta), (''bio'', JArr []), (''affiliations'', JArr []),
           (''news'', JArr [])]"

definition example_research_content :: json where
  "example_research_content =
     JObj [(''meta'', example_meta), (''interests'', JArr []), (''projects'', JArr [])]"

definition example_intro :: json where
  "example_intro =
     JObj [(''title'', JStr ''Papers''), (''description'', JStr ''All''), (''links'', JArr [])]"

definition example_publications_content :: json where
  "example_publications_content =
     JObj [(''meta'', example_meta), (''intro'', example_intro), (''publications'', JArr [])]"



definition example_teaching_content :: json where
  "example_teaching_content =
     JObj [(''meta'', example_meta), (''courses'', JArr []), (''mentoring'', JArr [])]"

section \<open>The build drivers\<close>

text \<open>
  What a driver sees of the outside: the files of the working directory (a file that
  exists has its text) and the lines printed so far. \<^verbatim>\<open>json.load\<close> is the library's
  parser, a parameter of the drivers: it returns the document or raises.
  A driver ends by returning its exit code or with an uncaught exception.
\<close>

record world =
  files :: "string \<Rightarrow> string option"
  stdout :: "string list"

datatype outcome = Returned int | Raised py_error

definition print_line :: "string \<Rightarrow> world \<Rightarrow> world" where
  "print_line s w = w\<lparr>stdout := stdout w @ [s]\<rparr>"

definition path_exists :: "world \<Rightarrow> string \<Rightarrow> bool" where
  "path_exists w p = (files w p \<noteq> None)"

text \<open>\<^verbatim>\<open>load_sidebar(path)\<close> and \<^verbatim>\<open>load_content(path)\<close>, called on a path that exists.\<close>

definition load_json :: "(string \<Rightarrow> py_error + json) \<Rightarrow> world \<Rightarrow> string \<Rightarrow> py_error + json" where
  "load_json json_load w p = json_load (the (files w p))"

text \<open>\<^verbatim>\<open>with open(path, "w") as f: f.write(html)\<close>.\<close>

definition write_file :: "string \<Rightarrow> string \<Rightarrow> world \<Rightarrow> world" where
  "write_file p s w = w\<lparr>files := (files w)(p \<mapsto> s)\<rparr>"

definition index_main :: "(string \<Rightarrow> py_error + json) \<Rightarrow> world \<Rightarrow> outcome \<times> world" where
  "index_main json_load w =
     (if \<not> path_exists w ''sidebar.json'' then
        (Returned 1, print_line ''Error: sidebar.json not found.'' w)
      else if \<not> path_exists w ''content_index.json'' then
        (Returned 1, print_line ''Error: content_index.json not found.'' w)
      else
        let w1 = print_line ''Loading sidebar from sidebar.json...'' w in
        case load_json json_load w1 ''sidebar.json'' of
          Inl e \<Rightarrow> (Raised e, w1)
        | Inr sidebar \<Rightarrow>
            let w2 = print_line ''Loading content from content_index.json...'' w1 in
            case load_json json_load w2 ''content_index.json'' of
              Inl e \<Rightarrow> (Raised e, w2)
            | Inr content \<Rightarrow>
                let w3 = print_line ''Building index.html...'' w2 in
                case index_build_html content sidebar of
                  Inl e \<Rightarrow> (Raised e, w3)
                | Inr html \<Rightarrow>
                    let w4 = print_line ''Writing to index.html...'' w3;
                        w5 = write_file ''index.html'' html w4
                    in (Returned 0, print_line ''Done!'' w5))"

definition research_main :: "(string \<Rightarrow> py_error + json) \<Rightarrow> world \<Rightarrow> outcome \<times> world" where
  "research_main json_load w =
     (if \<not> path_exists w ''sidebar.json'' then
        (Returned 1, print_line ''Error: sidebar.json not found.'' w)
      else if \<not> path_exists w ''content_research.json'' then
        (Returned 1, print_line ''Error: content_research.json not found.'' w)
      else
        let w1 = print_line ''Loading sidebar from sidebar.json...'' w in
        case load_json json_load w1 ''sidebar.json'' of
          Inl e \<Rightarrow> (Raised e, w1)
        | Inr sidebar \<Rightarrow>
            let w2 = print_line ''Loading content from content_research.json...'' w1 in
            case load_json json_load w2 ''content_research.json'' of
              Inl e \<Rightarrow> (Raised e, w2)
            | Inr content \<Rightarrow>
                let w3 = print_line ''Building research.html...'' w2 in
                case research_build_html content sidebar of
                  Inl e \<Rightarrow> (Raised e, w3)
                | Inr html \<Rightarrow>
                    let w4 = print_line ''Writing to research.html...'' w3;
                        w5 = write_file ''research.html'' html w4
                    in (Returned 0, print_line ''Done!'' w5))"

definition publications_main :: "(string \<Rightarrow> py_error + json) \<Rightarrow> world \<Rightarrow> outcome \<times> world" where
  "publications_main json_load w =
     (if \<not> path_exists w ''sidebar.json'' then
        (Returned 1, print_line ''Error: sidebar.json not found.'' w)
      else if \<not> path_exists w ''content_publications.json'' then
        (Returned 1, print_line ''Error: content_publications.json not found.'' w)
      else
        let w1 = print_line ''Loading sidebar from sidebar.json...'' w in
        case load_json json_load w1 ''sidebar.json'' of
          Inl e \<Rightarrow> (Raised e, w1)
        | Inr sidebar \<Rightarrow>
            let w2 = print_line ''Loading content from content_publications.json...'' w1 in
            case load_json json_load w2 ''content_publications.json'' of
              Inl e \<Rightarrow> (Raised e, w2)
            | Inr content \<Rightarrow>
                let w3 = print_line ''Building publications.html...'' w2 in
                case publications_build_html content sidebar of
                  Inl e \<Rightarrow> (Raised e, w3)
                | Inr html \<Rightarrow>
                    let w4 = print_line ''Writing to publications.html...'' w3;
                        w5 = write_file ''publications.html'' html w4
                    in (Returned 0, print_line ''Done!'' w5))"

definition teaching_main :: "(string \<Rightarrow> py_error + json) \<Rightarrow> world \<Rightarrow> outcome \<times> world" where
  "teaching_main json_load w =
     (if \<not> path_exists w ''sidebar.json'' then
        (Returned 1, print_line ''Error: sidebar.json not found.'' w)
      else if \<not> path_exists w ''content_teaching.json'' then
        (Returned 1, print_line ''Error: content_teaching.json not found.'' w)
      else
        let w1 = print_line ''Loading sidebar from sidebar.json...'' w in
        case load_json json_load w1 ''sidebar.json'' of
          Inl e \<Rightarrow> (Raised e, w1)
        | Inr sidebar \<Rightarrow>
            let w2 = print_line ''Loading content from content_teaching.json...'' w1 in
            case load_json json_load w2 ''content_teaching.json'' of
              Inl e \<Rightarrow> (Raised e, w2)
            | Inr content \<Rightarrow>
                let w3 = print_line ''Building teaching.html...'' w2 in
                case teaching_build_html content sidebar of
                  Inl e \<Rightarrow> (Raised e, w3)
                | Inr html \<Rightarrow>
                    let w4 = print_line ''Writing to teaching.html...'' w3;
                        w5 = write_file ''teaching.html'' html w4
                    in (Returned 0, print_line ''Done!'' w5))"

text \<open>
  The four drivers are one procedure up to the content file, the output file and the
  builder. \<open>build_driver\<close> is that procedure; it is used to state what holds of all four
  (each driver is shown to be an instance of it).
\<close>

definition build_driver ::
  "string \<Rightarrow> string \<Rightarrow> (json \<Rightarrow> json \<Rightarrow> py_error + html) \<Rightarrow> (string \<Rightarrow> py_error + json) \<Rightarrow> world \<Rightarrow> outcome \<times> world" where
  "build_driver content_path output_path build_html json_load w =
     (if \<not> path_exists w ''sidebar.json'' then
        (Returned 1, print_line ''Error: sidebar.json not found.'' w)
      else if \<not> path_exists w content_path then
        (Returned 1, print_line (''Error: '' @ content_path @ '' not found.'') w)
      else
        let w1 = print_line ''Loading sidebar from sidebar.json...'' w in
        case load_json json_load w1 ''sidebar.json'' of
          Inl e \<Rightarrow> (Raised e, w1)
        | Inr sidebar \<Rightarrow>
            let w2 = print_line (''Loading content from '' @ content_path @ ''...'') w1 in
            case load_json json_load w2 content_path of
              Inl e \<Rightarrow> (Raised e, w2)
            | Inr content \<Rightarrow>
                let w3 = print_line (''Building '' @ output_path @ ''...'') w2 in
                case build_html content sidebar of
                  Inl e \<Rightarrow> (Raised e, w3)
                | Inr html \<Rightarrow>
                    let w4 = print_line (''Writing to '' @ output_path @ ''...'') w3;
                        w5 = write_file output_path html w4
                    in (Returned 0, print_line ''Done!'' w5))"

text \<open>A world for the examples: both input files and an output file left by an earlier
  build, and a parser that knows the two input texts.\<close>

definition example_world :: world where
  "example_world =
     \<lparr>files = [''sidebar.json'' \<mapsto> ''S'', ''content_index.json'' \<mapsto> ''C'', ''index.html'' \<mapsto> ''old''],
      stdout = []\<rparr>"

definition example_json_load :: "string \<Rightarrow> py_error + json" where
  "example_json_load s =
     (if s = ''S'' then Inr example_sidebar
      else if s = ''C'' then Inr example_index_content
      else Inl JSONDecodeError)"

text \<open>A parser that reads the content file as an empty dictionary.\<close>

definition example_json_load_empty :: "string \<Rightarrow> py_error + json" where
  "example_json_load_empty s = (if s = ''S'' then Inr example_sidebar else Inr (JObj []))"

section \<open>Properties\<close>

subsection \<open>Sequencing\<close>

lemma bnd_Inl [simp]: "bnd (Inl e) f = Inl e"
  by (simp add: bnd_def)

lemma bnd_Inr [simp]: "bnd (Inr x) f = f x"
  by (simp add: bnd_def)

lemma bnd_eq_Inr: "bnd m f = Inr y \<longleftrightarrow> (\<exists>x. m = Inr x \<and> f x = Inr y)"
  by (cases m) simp_all

lemma bnd_eq_Inl: "bnd m f = Inl e \<longleftrightarrow> m = Inl e \<or> (\<exists>x. m = Inr x \<and> f x = Inl e)"
  by (cases m) simp_all


lemma get_nav_html_without_sidebar:
  \<open>get_nav_html a JNull =
     Inr (str_join (''\<newline>'' @ ''        '') (map (nav_link a) (nav_pages ''cv.pdf'')))\<close>
  by (simp add: get_nav_html_def)


subsection \<open>The example documents build\<close>

lemma get_base_css_without_sidebar:
  "get_base_css JNull =
     Inr (base_css_template ''#0D9488'' ''#0F766E'' ''#0066cc'' ''#004499''
            ''#2DD4BF'' ''#5EEAD4'' ''#60A5FA'' ''#93C5FD'')"
  by (simp add: get_base_css_def theme_tables_def)

lemma example_base_css:
  "get_base_css example_sidebar =
     Inr (base_css_template ''#FF0000'' ''#0F766E'' ''#0066cc'' ''#004499''
            ''#2DD4BF'' ''#5EEAD4'' ''#60A5FA'' ''#93C5FD'')"
  by (simp add: get_base_css_def theme_tables_def example_sidebar_def)

lemma example_nav_brand: "get_nav_brand example_sidebar = Inr (JStr ''Ada L'')"
  by (simp add: get_nav_brand_def example_sidebar_def)

lemma example_nav_html:
  \<open>get_nav_html a example_sidebar =
     Inr (str_join (''\<newline>'' @ ''        '') (map (nav_link a) (nav_pages ''files/my_cv.pdf'')))\<close>
  by (simp add: get_nav_html_def example_sidebar_def)

lemma example_sidebar_html: "\<exists>side. get_sidebar_html example_sidebar = Inr side"
  by (simp add: get_sidebar_html_def sidebar_bio_html_def generate_profile_image_def
        generate_sidebar_links_def example_sidebar_def)

lemma example_footer_html: "\<exists>foot. get_footer_html example_sidebar = Inr foot"
  by (simp add: get_footer_html_def example_sidebar_def)

lemma example_meta_fields:
  "subscript example_meta ''title'' = Inr (JStr ''T'')"
  "subscript example_meta ''description'' = Inr (JStr ''D'')"
  by (simp_all add: example_meta_def)

lemma example_index_builds:
  \<open>\<exists>side foot.
     index_build_html example_index_content example_sidebar =
       Inr (index_page
              (head_template ''D'' ''T''
                 (base_css_template ''#0D9488'' ''#0F766E'' ''#0066cc'' ''#004499''
                    ''#2DD4BF'' ''#5EEAD4'' ''#60A5FA'' ''#93C5FD'')
                 get_index_css)
              ''Ada L''
              (str_join (''\<newline>'' @ ''        '') (map (nav_link ''bio'') (nav_pages ''files/my_cv.pdf'')))
              side [] [] [] [] [] foot get_js_code)\<close>
proof -
  from example_sidebar_html obtain side where s: "get_sidebar_html example_sidebar = Inr side" ..
  from example_footer_html obtain foot where f: "get_footer_html example_sidebar = Inr foot" ..
  have \<open>index_build_html example_index_content example_sidebar =
       Inr (index_page
              (head_template ''D'' ''T''
                 (base_css_template ''#0D9488'' ''#0F766E'' ''#0066cc'' ''#004499''
                    ''#2DD4BF'' ''#5EEAD4'' ''#60A5FA'' ''#93C5FD'')
                 get_index_css)
              ''Ada L''
              (str_join (''\<newline>'' @ ''        '') (map (nav_link ''bio'') (nav_pages ''files/my_cv.pdf'')))
              side [] [] [] [] [] foot get_js_code)\<close>
    by (simp add: index_build_html_def example_index_content_def example_meta_fields
          get_base_head_html_def get_base_css_without_sidebar example_nav_brand example_nav_html
          s f generate_bio_paragraphs_def generate_affiliations_def generate_degrees_def
          generate_news_def generate_sponsors_def)
  then show ?thesis by blast
qed

lemma example_research_builds:
  \<open>\<exists>side foot.
     research_build_html example_research_content example_sidebar =
       Inr (research_page
              (str_replace ''</style>'' (get_research_css @ ''</style>'')
                 (head_template ''D'' ''T''
                    (base_css_template ''#0D9488'' ''#0F766E'' ''#0066cc'' ''#004499''
                       ''#2DD4BF'' ''#5EEAD4'' ''#60A5FA'' ''#93C5FD'')
                    []))
              ''Ada L''
              (str_join (''\<newline>'' @ ''        '') (map (nav_link ''research'') (nav_pages ''cv.pdf'')))
              side [] [] foot get_js_code)\<close>
proof -
  from example_sidebar_html obtain side where s: "get_sidebar_html example_sidebar = Inr side" ..
  from example_footer_html obtain foot where f: "get_footer_html example_sidebar = Inr foot" ..
  have \<open>research_build_html example_research_content example_sidebar =
       Inr (research_page
              (str_replace ''</style>'' (get_research_css @ ''</style>'')
                 (head_template ''D'' ''T''
                    (base_css_template ''#0D9488'' ''#0F766E'' ''#0066cc'' ''#004499''
                       ''#2DD4BF'' ''#5EEAD4'' ''#60A5FA'' ''#93C5FD'')
                    []))
              ''Ada L''
              (str_join (''\<newline>'' @ ''        '') (map (nav_link ''research'') (nav_pages ''cv.pdf'')))
              side [] [] foot get_js_code)\<close>
    by (simp add: research_build_html_def example_research_content_def example_meta_fields
          get_head_html_def get_base_head_html_def get_base_css_without_sidebar example_nav_brand
          get_nav_html_without_sidebar s f generate_interests_html_def py_join_def
          generate_projects_html_def)
  then show ?thesis by blast
qed

lemma example_publications_builds:
  \<open>\<exists>side foot.
     publications_build_html example_publications_content example_sidebar =
       Inr (publications_page
              (str_replace ''</style>'' (get_publications_css @ ''</style>'')
                 (head_template ''D'' ''T''
                    (base_css_template ''#FF0000'' ''#0F766E'' ''#0066cc'' ''#004499''
                       ''#2DD4BF'' ''#5EEAD4'' ''#60A5FA'' ''#93C5FD'')
                    []))
              ''Ada L''
              (str_join (''\<newline>'' @ ''        '') (map (nav_link ''publications'') (nav_pages ''cv.pdf'')))
              side ''Papers'' ''All'' [] [] [] foot get_js_code)\<close>
proof -
  from example_sidebar_html obtain side where s: "get_sidebar_html example_sidebar = Inr side" ..
  from example_footer_html obtain foot where f: "get_footer_html example_sidebar = Inr foot" ..
  have \<open>publications_build_html example_publications_content example_sidebar =
       Inr (publications_page
              (str_replace ''</style>'' (get_publications_css @ ''</style>'')
                 (head_template ''D'' ''T''
                    (base_css_template ''#FF0000'' ''#0F766E'' ''#0066cc'' ''#004499''
                       ''#2DD4BF'' ''#5EEAD4'' ''#60A5FA'' ''#93C5FD'')
                    []))
              ''Ada L''
              (str_join (''\<newline>'' @ ''        '') (map (nav_link ''publications'') (nav_pages ''cv.pdf'')))
              side ''Papers'' ''All'' [] [] [] foot get_js_code)\<close>
    by (simp add: publications_build_html_def example_publications_content_def example_meta_fields
          example_intro_def get_head_html_def get_base_head_html_def example_base_css
          example_nav_brand get_nav_html_without_sidebar s f generate_intro_links_def
          generate_publications_html_def)
  then show ?thesis by blast
qed


lemma example_teaching_builds:
  \<open>\<exists>side foot.
     teaching_build_html example_teaching_content example_sidebar =
       Inr (teaching_page
              (str_replace ''</style>'' (get_teaching_css @ ''</style>'')
                 (head_template ''D'' ''T''
                    (base_css_template ''#FF0000'' ''#0F766E'' ''#0066cc'' ''#004499''
                       ''#2DD4BF'' ''#5EEAD4'' ''#60A5FA'' ''#93C5FD'')
                    []))
              ''Ada L''
              (str_join (''\<newline>'' @ ''        '') (map (nav_link ''teaching'') (nav_pages ''cv.pdf'')))
              side [] [] foot get_js_code)\<close>
proof -
  from example_sidebar_html obtain side where s: "get_sidebar_html example_sidebar = Inr side" ..
  from example_footer_html obtain foot where f: "get_footer_html example_sidebar = Inr foot" ..
  have \<open>teaching_build_html example_teaching_content example_sidebar =
       Inr (teaching_page
              (str_replace ''</style>'' (get_teaching_css @ ''</style>'')
                 (head_template ''D'' ''T''
                    (base_css_template ''#FF0000'' ''#0F766E'' ''#0066cc'' ''#004499''
                       ''#2DD4BF'' ''#5EEAD4'' ''#60A5FA'' ''#93C5FD'')
                    []))
              ''Ada L''
              (str_join (''\<newline>'' @ ''        '') (map (nav_link ''teaching'') (nav_pages ''cv.pdf'')))
              side [] [] foot get_js_code)\<close>
    by (simp add: teaching_build_html_def example_teaching_content_def example_meta_fields
          get_head_html_def get_base_head_html_def example_base_css example_nav_brand
          get_nav_html_without_sidebar s f generate_courses_html_def generate_mentoring_html_def)
  then show ?thesis by blast
qed

subsection \<open>The drivers as instances of one procedure\<close>

lemma index_main_driver:
  "index_main = build_driver ''content_index.json'' ''index.html'' index_build_html"
  by (rule ext)+ (simp add: index_main_def build_driver_def Let_def split: sum.splits)

lemma research_main_driver:
  "research_main = build_driver ''content_research.json'' ''research.html'' research_build_html"
  by (rule ext)+ (simp add: research_main_def build_driver_def Let_def split: sum.splits)

lemma publications_main_driver:
  "publications_main =
     build_driver ''content_publications.json'' ''publications.html'' publications_build_html"
  by (rule ext)+ (simp add: publications_main_def build_driver_def Let_def split: sum.splits)

lemma teaching_main_driver:
  "teaching_main = build_driver ''content_teaching.json'' ''teaching.html'' teaching_build_html"
  by (rule ext)+ (simp add: teaching_main_def build_driver_def Let_def split: sum.splits)

text \<open>How a run ends, and what it leaves of the files, as functions of the two input
  files.\<close>

lemma driver_outcome:
  "fst (build_driver cp out build jl w) =
     (case files w ''sidebar.json'' of
        None \<Rightarrow> Returned 1
      | Some st \<Rightarrow>
          (case files w cp of
             None \<Rightarrow> Returned 1
           | Some ct \<Rightarrow>
               (case jl st of
                  Inl e \<Rightarrow> Raised e
                | Inr sb \<Rightarrow>
                    (case jl ct of
                       Inl e \<Rightarrow> Raised e
                     | Inr c \<Rightarrow> (case build c sb of Inl e \<Rightarrow> Raised e | Inr html \<Rightarrow> Returned 0)))))"
  by (simp add: build_driver_def path_exists_def load_json_def print_line_def Let_def
        split: option.splits sum.splits)

lemma driver_files:
  "files (snd (build_driver cp out build jl w)) =
     (case files w ''sidebar.json'' of
        None \<Rightarrow> files w
      | Some st \<Rightarrow>
          (case files w cp of
             None \<Rightarrow> files w
           | Some ct \<Rightarrow>
               (case jl st of
                  Inl e \<Rightarrow> files w
                | Inr sb \<Rightarrow>
                    (case jl ct of
                       Inl e \<Rightarrow> files w
                     | Inr c \<Rightarrow>
                         (case build c sb of
                            Inl e \<Rightarrow> files w
                          | Inr html \<Rightarrow> (files w)(out \<mapsto> html))))))"
  by (simp add: build_driver_def path_exists_def load_json_def print_line_def write_file_def Let_def
        split: option.splits sum.splits)

lemma driver_idempotent:
  assumes "out \<noteq> ''sidebar.json''" and "out \<noteq> cp"
  shows "fst (build_driver cp out build jl (snd (build_driver cp out build jl w))) =
           fst (build_driver cp out build jl w)"
    and "files (snd (build_driver cp out build jl (snd (build_driver cp out build jl w)))) =
           files (snd (build_driver cp out build jl w))"
proof -
  let ?w' = "snd (build_driver cp out build jl w)"
  have s: "files ?w' ''sidebar.json'' = files w ''sidebar.json''"
    using assms by (simp add: driver_files split: option.splits sum.splits)
  have c: "files ?w' cp = files w cp"
    using assms by (simp add: driver_files split: option.splits sum.splits)
  show "fst (build_driver cp out build jl ?w') = fst (build_driver cp out build jl w)"
    unfolding driver_outcome [of cp out build jl ?w'] driver_outcome [of cp out build jl w] s c
    by (rule refl)
  have "files (snd (build_driver cp out build jl ?w')) =
     (case files w ''sidebar.json'' of
        None \<Rightarrow> files ?w'
      | Some st \<Rightarrow>
          (case files w cp of
             None \<Rightarrow> files ?w'
           | Some ct \<Rightarrow>
               (case jl st of
                  Inl e \<Rightarrow> files ?w'
                | Inr sb \<Rightarrow>
                    (case jl ct of
                       Inl e \<Rightarrow> files ?w'
                     | Inr c \<Rightarrow>
                         (case build c sb of
                            Inl e \<Rightarrow> files ?w'
                          | Inr html \<Rightarrow> (files ?w')(out \<mapsto> html))))))"
    unfolding driver_files [of cp out build jl ?w'] s c by (rule refl)
  also have "\<dots> = files ?w'"
    by (simp add: driver_files [of cp out build jl w] split: option.splits sum.splits)
  finally show "files (snd (build_driver cp out build jl ?w')) = files ?w'" .
qed

lemma build_html_without_meta:
  assumes "map_of kvs ''meta'' = None"
  shows "index_build_html (JObj kvs) sb = Inl (KeyError ''meta'')"
    and "research_build_html (JObj kvs) sb = Inl (KeyError ''meta'')"
    and "publications_build_html (JObj kvs) sb = Inl (KeyError ''meta'')"
    and "teaching_build_html (JObj kvs) sb = Inl (KeyError ''meta'')"
  using assms
  by (simp_all add: index_build_html_def research_build_html_def publications_build_html_def
        teaching_build_html_def)

subsection \<open>Navigation\<close>

text \<open>
  C2. For every sidebar dictionary and every active page identifier, \<^verbatim>\<open>get_nav_html\<close>
  returns (without raising) five list items, Biography, Research, Publications, Teaching
  and CV in that order, joined by the separator; a call without a sidebar gives what the
  empty dictionary gives. The anchor of an entry carries the
  active class exactly when its page id is the identifier: when the identifier is one of
  the five ids that is one anchor, the matching one; otherwise none. The CV entry is the
  only one that opens in a new tab.
\<close>

theorem get_nav_html_five_links:
  \<open>(let cv = (if kvs = [] then ''cv.pdf''
              else py_str (case map_of kvs ''cv_file'' of Some v \<Rightarrow> v | None \<Rightarrow> JStr ''cv.pdf''));
        ids = [''bio'', ''research'', ''publications'', ''teaching'', ''cv'']
    in get_nav_html a (JObj kvs) =
         Inr (str_join (''\<newline>'' @ ''        '')
           [''<li><a href="index.html"'' @ nav_active_class ''bio'' a @ ''>Biography</a></li>'',
            ''<li><a href="research.html"'' @ nav_active_class ''research'' a @ ''>Research</a></li>'',
            ''<li><a href="publications.html"'' @ nav_active_class ''publications'' a @ ''>Publications</a></li>'',
            ''<li><a href="teaching.html"'' @ nav_active_class ''teaching'' a @ ''>Teaching</a></li>'',
            ''<li><a href="'' @ cv @ ''"'' @ nav_active_class ''cv'' a @
              '' target="_blank" rel="noopener">CV</a></li>''])
       \<and> (a \<in> set ids \<longrightarrow> filter (\<lambda>p. nav_active_class p a = '' class="active"'') ids = [a])
       \<and> (a \<notin> set ids \<longrightarrow> filter (\<lambda>p. nav_active_class p a \<noteq> '''') ids = [])
       \<and> filter (\<lambda>p. nav_target (snd (snd (snd p))) \<noteq> '''') (nav_pages cv) = [(''cv'', cv, ''CV'', True)]
       \<and> get_nav_html a JNull = get_nav_html a (JObj []))\<close>
proof -
  have out: \<open>get_nav_html a (JObj kvs) =
         Inr (str_join (''\<newline>'' @ ''        '')
           (map (nav_link a) (nav_pages (if kvs = [] then ''cv.pdf''
              else py_str (case map_of kvs ''cv_file'' of Some v \<Rightarrow> v | None \<Rightarrow> JStr ''cv.pdf'')))))\<close>
    by (simp add: get_nav_html_def)
  have act: \<open>nav_active_class p a = '' class="active"'' \<longleftrightarrow> p = a\<close> for p
    by (simp add: nav_active_class_def)
  have inact: \<open>nav_active_class p a \<noteq> '''' \<longleftrightarrow> p = a\<close> for p
    by (simp add: nav_active_class_def)
  show ?thesis
    unfolding Let_def out
    by (auto simp add: act inact nav_pages_def nav_link_def nav_target_def get_nav_html_def)
qed

theorem get_nav_html_five_links_witness:
  \<open>get_nav_html ''research'' (JObj [(''cv_file'', JStr ''files/my_cv.pdf'')]) =
     Inr (''<li><a href="index.html">Biography</a></li>\<newline>'' @
          ''        <li><a href="research.html" class="active">Research</a></li>\<newline>'' @
          ''        <li><a href="publications.html">Publications</a></li>\<newline>'' @
          ''        <li><a href="teaching.html">Teaching</a></li>\<newline>'' @
          ''        <li><a href="files/my_cv.pdf" target="_blank" rel="noopener">CV</a></li>'')
   \<and> filter (\<lambda>p. nav_active_class p ''research'' = '' class="active"'')
        [''bio'', ''research'', ''publications'', ''teaching'', ''cv''] = [''research'']
   \<and> get_nav_html ''blog'' (JObj []) =
     Inr (''<li><a href="index.html">Biography</a></li>\<newline>'' @
          ''        <li><a href="research.html">Research</a></li>\<newline>'' @
          ''        <li><a href="publications.html">Publications</a></li>\<newline>'' @
          ''        <li><a href="teaching.html">Teaching</a></li>\<newline>'' @
          ''        <li><a href="cv.pdf" target="_blank" rel="noopener">CV</a></li>'')\<close>
  using get_nav_html_five_links [of "[(''cv_file'', JStr ''files/my_cv.pdf'')]" "''research''"]
    get_nav_html_five_links [of "[]" "''blog''"]
  by (simp add: Let_def nav_active_class_def)

subsection \<open>The sidebar's bio block\<close>



subsection \<open>Paper thumbnails\<close>

text \<open>
  C4. A paper dictionary without an \<^verbatim>\<open>image\<close> key, rendered with thumbnails
  (\<^verbatim>\<open>show_image\<close> true, the default of the Python function), gives the thumbnail template
  filled with the placeholder path: the fragment starts with the item and image blocks
  whose \<^verbatim>\<open>img\<close> has \<^verbatim>\<open>src="assets/img/pub_placeholder.png"\<close>.
\<close>

theorem paper_without_image_uses_placeholder:
  \<open>map_of p ''image'' = None \<and> generate_paper_html (JObj p) True = Inr html
   \<longrightarrow> (\<exists>title authors venue links_html.
          map_of p ''title'' = Some title \<and> map_of p ''venue'' = Some venue \<and>
          html = paper_template ''assets/img/pub_placeholder.png'' (py_str title) authors
                   (py_str venue) links_html)
       \<and> prefix (''<div class="paper-item">\<newline>'' @
                 ''          <div class="paper-image">\<newline>'' @
                 ''            <img src="assets/img/pub_placeholder.png" alt="'') html\<close>
  by (auto simp add: generate_paper_html_def bnd_eq_Inr paper_template_def
        split: option.splits)

theorem paper_without_image_uses_placeholder_witness:
  \<open>generate_paper_html (JObj [(''title'', JStr ''T''), (''venue'', JStr ''V'')]) True =
     Inr (paper_template ''assets/img/pub_placeholder.png'' ''T'' '''' ''V'' '''')
   \<and> prefix (''<div class="paper-item">\<newline>'' @
             ''          <div class="paper-image">\<newline>'' @
             ''            <img src="assets/img/pub_placeholder.png" alt="'')
        (paper_template ''assets/img/pub_placeholder.png'' ''T'' '''' ''V'' '''')\<close>
proof -
  have h: \<open>generate_paper_html (JObj [(''title'', JStr ''T''), (''venue'', JStr ''V'')]) True =
     Inr (paper_template ''assets/img/pub_placeholder.png'' ''T'' '''' ''V'' '''')\<close>
    by (simp add: generate_paper_html_def generate_paper_links_def)
  from h paper_without_image_uses_placeholder
         [of "[(''title'', JStr ''T''), (''venue'', JStr ''V'')]"
             "paper_template ''assets/img/pub_placeholder.png'' ''T'' '''' ''V'' ''''"]
  show ?thesis by simp
qed

subsection \<open>Affiliation logos\<close>



subsection \<open>Conference abstracts on the publications page\<close>



subsection \<open>The CV link of each page\<close>



subsection \<open>Theme colours in the head\<close>

text \<open>
  C1. The style sheet takes its colours from the sidebar it is given: for the example
  sidebar, whose theme declares the light accent \<^verbatim>\<open>#FF0000\<close>, \<^verbatim>\<open>get_base_css\<close> puts
  that colour in the variable block and the defaults elsewhere, and the publications
  and teaching pages carry that style sheet. The biography and research builders do not
  pass the sidebar to the head: on the same sidebar their head carries the style sheet of
  the eight default colours, with the light accent \<^verbatim>\<open>#0D9488\<close>.
\<close>

theorem index_and_research_heads_ignore_theme:
  \<open>get_base_css example_sidebar =
     Inr (base_css_template ''#FF0000'' ''#0F766E'' ''#0066cc'' ''#004499''
            ''#2DD4BF'' ''#5EEAD4'' ''#60A5FA'' ''#93C5FD'')
   \<and> (\<exists>brand nav side foot.
        index_build_html example_index_content example_sidebar =
          Inr (index_page
                 (head_template ''D'' ''T''
                    (base_css_template ''#0D9488'' ''#0F766E'' ''#0066cc'' ''#004499''
                       ''#2DD4BF'' ''#5EEAD4'' ''#60A5FA'' ''#93C5FD'')
                    get_index_css)
                 brand nav side [] [] [] [] [] foot get_js_code))
   \<and> (\<exists>brand nav side foot.
        research_build_html example_research_content example_sidebar =
          Inr (research_page
                 (str_replace ''</style>'' (get_research_css @ ''</style>'')
                    (head_template ''D'' ''T''
                       (base_css_template ''#0D9488'' ''#0F766E'' ''#0066cc'' ''#004499''
                          ''#2DD4BF'' ''#5EEAD4'' ''#60A5FA'' ''#93C5FD'')
                       []))
                 brand nav side [] [] foot get_js_code))
   \<and> (\<exists>brand nav side foot.
        publications_build_html example_publications_content example_sidebar =
          Inr (publications_page
                 (str_replace ''</style>'' (get_publications_css @ ''</style>'')
                    (head_template ''D'' ''T''
                       (base_css_template ''#FF0000'' ''#0F766E'' ''#0066cc'' ''#004499''
                          ''#2DD4BF'' ''#5EEAD4'' ''#60A5FA'' ''#93C5FD'')
                       []))
                 brand nav side ''Papers'' ''All'' [] [] [] foot get_js_code))
   \<and> (\<exists>brand nav side foot.
        teaching_build_html example_teaching_content example_sidebar =
          Inr (teaching_page
                 (str_replace ''</style>'' (get_teaching_css @ ''</style>'')
                    (head_template ''D'' ''T''
                       (base_css_template ''#FF0000'' ''#0F766E'' ''#0066cc'' ''#004499''
                          ''#2DD4BF'' ''#5EEAD4'' ''#60A5FA'' ''#93C5FD'')
                       []))
                 brand nav side [] [] foot get_js_code))\<close>
  using example_base_css example_index_builds example_research_builds example_publications_builds
    example_teaching_builds
  by blast

subsection \<open>Missing input files\<close>

text \<open>
  C7. When \<^verbatim>\<open>sidebar.json\<close> does not exist, each driver prints the one line
  \<^verbatim>\<open>Error: sidebar.json not found.\<close> and returns 1; when it exists and the page's content
  file does not, the line names the content file. In both cases the result is the same
  for every parser (nothing is loaded or rendered) and the files are left as they were:
  the output file is neither created nor overwritten.
\<close>

theorem missing_input_stops_build:
  "(\<not> path_exists w ''sidebar.json'' \<longrightarrow>
      index_main jl w = (Returned 1, w\<lparr>stdout := stdout w @ [''Error: sidebar.json not found.'']\<rparr>) \<and>
      research_main jl w = (Returned 1, w\<lparr>stdout := stdout w @ [''Error: sidebar.json not found.'']\<rparr>) \<and>
      publications_main jl w = (Returned 1, w\<lparr>stdout := stdout w @ [''Error: sidebar.json not found.'']\<rparr>) \<and>
      teaching_main jl w = (Returned 1, w\<lparr>stdout := stdout w @ [''Error: sidebar.json not found.'']\<rparr>))
   \<and> (path_exists w ''sidebar.json'' \<and> \<not> path_exists w ''content_index.json'' \<longrightarrow>
      index_main jl w =
        (Returned 1, w\<lparr>stdout := stdout w @ [''Error: content_index.json not found.'']\<rparr>))
   \<and> (path_exists w ''sidebar.json'' \<and> \<not> path_exists w ''content_research.json'' \<longrightarrow>
      research_main jl w =
        (Returned 1, w\<lparr>stdout := stdout w @ [''Error: content_research.json not found.'']\<rparr>))
   \<and> (path_exists w ''sidebar.json'' \<and> \<not> path_exists w ''content_publications.json'' \<longrightarrow>
      publications_main jl w =
        (Returned 1, w\<lparr>stdout := stdout w @ [''Error: content_publications.json not found.'']\<rparr>))
   \<and> (path_exists w ''sidebar.json'' \<and> \<not> path_exists w ''content_teaching.json'' \<longrightarrow>
      teaching_main jl w =
        (Returned 1, w\<lparr>stdout := stdout w @ [''Error: content_teaching.json not found.'']\<rparr>))"
  by (simp add: index_main_def research_main_def publications_main_def teaching_main_def
        print_line_def)

theorem missing_input_stops_build_witness:
  "index_main example_json_load \<lparr>files = Map.empty, stdout = []\<rparr> =
     (Returned 1, \<lparr>files = Map.empty, stdout = [''Error: sidebar.json not found.'']\<rparr>)
   \<and> research_main example_json_load \<lparr>files = [''sidebar.json'' \<mapsto> ''S''], stdout = []\<rparr> =
     (Returned 1, \<lparr>files = [''sidebar.json'' \<mapsto> ''S''],
                   stdout = [''Error: content_research.json not found.'']\<rparr>)"
  using missing_input_stops_build
          [where w = "\<lparr>files = Map.empty, stdout = []\<rparr>" and jl = example_json_load]
        missing_input_stops_build
          [where w = "\<lparr>files = [''sidebar.json'' \<mapsto> ''S''], stdout = []\<rparr>" and jl = example_json_load]
  by (simp add: path_exists_def)

subsection \<open>A failure while rendering\<close>

text \<open>
  C8. When both input files exist and load, and the builder raises, the driver ends with
  that exception and the files are what they were: rendering comes before the output
  file is opened, so an output file of an earlier build is unchanged. A content
  dictionary without the \<^verbatim>\<open>meta\<close> key is such a case for all four builders: they raise
  \<^verbatim>\<open>KeyError('meta')\<close>, was the sidebar what it may.
\<close>

theorem render_failure_leaves_output_untouched:
  "(files w ''sidebar.json'' = Some st \<and> files w ''content_index.json'' = Some ct \<and>
    jl st = Inr sb \<and> jl ct = Inr c \<and> index_build_html c sb = Inl e
    \<longrightarrow> fst (index_main jl w) = Raised e \<and> files (snd (index_main jl w)) = files w)
   \<and> (files w ''sidebar.json'' = Some st \<and> files w ''content_research.json'' = Some ct \<and>
    jl st = Inr sb \<and> jl ct = Inr c \<and> research_build_html c sb = Inl e
    \<longrightarrow> fst (research_main jl w) = Raised e \<and> files (snd (research_main jl w)) = files w)
   \<and> (files w ''sidebar.json'' = Some st \<and> files w ''content_publications.json'' = Some ct \<and>
    jl st = Inr sb \<and> jl ct = Inr c \<and> publications_build_html c sb = Inl e
    \<longrightarrow> fst (publications_main jl w) = Raised e \<and> files (snd (publications_main jl w)) = files w)
   \<and> (files w ''sidebar.json'' = Some st \<and> files w ''content_teaching.json'' = Some ct \<and>
    jl st = Inr sb \<and> jl ct = Inr c \<and> teaching_build_html c sb = Inl e
    \<longrightarrow> fst (teaching_main jl w) = Raised e \<and> files (snd (teaching_main jl w)) = files w)
   \<and> (map_of kvs ''meta'' = None
    \<longrightarrow> index_build_html (JObj kvs) sb = Inl (KeyError ''meta'') \<and>
        research_build_html (JObj kvs) sb = Inl (KeyError ''meta'') \<and>
        publications_build_html (JObj kvs) sb = Inl (KeyError ''meta'') \<and>
        teaching_build_html (JObj kvs) sb = Inl (KeyError ''meta''))"
  by (simp add: index_main_driver research_main_driver publications_main_driver
        teaching_main_driver driver_outcome driver_files build_html_without_meta)

theorem render_failure_leaves_output_untouched_witness:
  "fst (index_main example_json_load_empty example_world) = Raised (KeyError ''meta'')
   \<and> files (snd (index_main example_json_load_empty example_world)) = files example_world
   \<and> files example_world ''index.html'' = Some ''old''"
proof -
  have f1: "files example_world ''sidebar.json'' = Some ''S''"
    and f2: "files example_world ''content_index.json'' = Some ''C''"
    and f3: "files example_world ''index.html'' = Some ''old''"
    by (simp_all add: example_world_def)
  have p1: "example_json_load_empty ''S'' = Inr example_sidebar"
    and p2: "example_json_load_empty ''C'' = Inr (JObj [])"
    by (simp_all add: example_json_load_empty_def)
  have b: "index_build_html (JObj []) example_sidebar = Inl (KeyError ''meta'')"
    using render_failure_leaves_output_untouched [where kvs = "[]" and sb = example_sidebar]
    by simp
  from f1 f2 f3 p1 p2 b
    render_failure_leaves_output_untouched
      [where w = example_world and jl = example_json_load_empty and st = "''S''" and ct = "''C''"
         and sb = example_sidebar and c = "JObj []" and e = "KeyError ''meta''"]
  show ?thesis by simp
qed

subsection \<open>Building twice\<close>

text \<open>
  C9. Each builder is a function of the two documents, so a driver writes the same text
  whenever it reads the same inputs. Run a second time on the files the first run left,
  each driver ends the same way and leaves the same files: the output file of the second
  run is, byte for byte, that of the first.
\<close>

theorem build_twice_same_output:
  "fst (index_main jl (snd (index_main jl w))) = fst (index_main jl w)
   \<and> files (snd (index_main jl (snd (index_main jl w)))) = files (snd (index_main jl w))
   \<and> fst (research_main jl (snd (research_main jl w))) = fst (research_main jl w)
   \<and> files (snd (research_main jl (snd (research_main jl w)))) = files (snd (research_main jl w))
   \<and> fst (publications_main jl (snd (publications_main jl w))) = fst (publications_main jl w)
   \<and> files (snd (publications_main jl (snd (publications_main jl w)))) =
       files (snd (publications_main jl w))
   \<and> fst (teaching_main jl (snd (teaching_main jl w))) = fst (teaching_main jl w)
   \<and> files (snd (teaching_main jl (snd (teaching_main jl w)))) = files (snd (teaching_main jl w))"
proof -
  have i: "''index.html'' \<noteq> ''sidebar.json''" "''index.html'' \<noteq> ''content_index.json''"
    by simp_all
  have r: "''research.html'' \<noteq> ''sidebar.json''" "''research.html'' \<noteq> ''content_research.json''"
    by simp_all
  have p: "''publications.html'' \<noteq> ''sidebar.json''"
    "''publications.html'' \<noteq> ''content_publications.json''"
    by simp_all
  have t: "''teaching.html'' \<noteq> ''sidebar.json''" "''teaching.html'' \<noteq> ''content_teaching.json''"
    by simp_all
  show ?thesis
    by (simp add: index_main_driver research_main_driver publications_main_driver
          teaching_main_driver driver_idempotent [OF i] driver_idempotent [OF r]
          driver_idempotent [OF p] driver_idempotent [OF t])
qed

theorem build_twice_same_output_witness:
  "fst (index_main example_json_load example_world) = Returned 0
   \<and> fst (index_main example_json_load (snd (index_main example_json_load example_world))) = Returned 0
   \<and> files (snd (index_main example_json_load (snd (index_main example_json_load example_world))))
        ''index.html'' =
      files (snd (index_main example_json_load example_world)) ''index.html''"
proof -
  from example_index_builds obtain html
    where b: "index_build_html example_index_content example_sidebar = Inr html"
    by blast
  have first: "fst (index_main example_json_load example_world) = Returned 0"
    by (simp add: index_main_driver driver_outcome example_world_def example_json_load_def b)
  from first build_twice_same_output [where jl = example_json_load and w = example_world]
  show ?thesis by simp
qed

end
